theory Spec2Isabelle
  imports Main
begin

section \<open>Strings\<close>

text \<open>
  A Python string whose characters lie below U+0100 is modelled as a \<^typ>\<open>string\<close>:
  one \<^typ>\<open>char\<close> is one character, read as its code point, so \<^const>\<open>length\<close> and
  \<^const>\<open>take\<close> count what \<^verbatim>\<open>len\<close> and slicing count. On these strings
  \<open>strip\<close> and \<open>lower\<close> below are \<^verbatim>\<open>str.strip()\<close> and \<^verbatim>\<open>str.lower()\<close>
  exactly; \<open>upper\<close> is \<^verbatim>\<open>str.upper()\<close> on ASCII text. Strings with other characters
  are outside the model; the pictographs of the printed lines are kept apart (see
  \<open>glyph\<close>).
\<close>

text \<open>Truthiness of an optional string argument: \<^verbatim>\<open>None\<close> and \<^verbatim>\<open>""\<close> are false.\<close>

definition truthy :: "string option \<Rightarrow> bool" where
  "truthy v = (case v of None \<Rightarrow> False | Some s \<Rightarrow> s \<noteq> [])"

text \<open>
  \<^verbatim>\<open>s.replace(old, new)\<close>: a scan from the left that replaces each occurrence of
  \<open>old\<close> and resumes after it, so that the occurrences replaced do not overlap.
\<close>

fun replace_scan :: "string \<Rightarrow> string \<Rightarrow> string \<Rightarrow> string" where
  "replace_scan old new [] = []"
| "replace_scan old new (c # cs) =
     (if old \<noteq> [] \<and> take (length old) (c # cs) = old
      then new @ replace_scan old new (drop (length old) (c # cs))
      else c # replace_scan old new cs)"

definition str_replace :: "string \<Rightarrow> string \<Rightarrow> string \<Rightarrow> string" where
  "str_replace old new s =
     (if old = [] then new @ concat (map (\<lambda>c. c # new) s) else replace_scan old new s)"

text \<open>\<^verbatim>\<open>old in s\<close> for a non-empty \<open>old\<close>: some suffix of \<open>s\<close> starts with \<open>old\<close>.\<close>

fun occurs :: "string \<Rightarrow> string \<Rightarrow> bool" where
  "occurs old [] = (old = [])"
| "occurs old (c # cs) = (take (length old) (c # cs) = old \<or> occurs old cs)"

text \<open>
  \<^verbatim>\<open>str.isspace\<close> on one character below U+0100: the ten ASCII ones, NEXT LINE (U+0085)
  and NO-BREAK SPACE (U+00A0).
\<close>

definition is_space :: "char \<Rightarrow> bool" where
  "is_space c = (c \<in> set [CHR 0x09, CHR 0x0A, CHR 0x0B, CHR 0x0C, CHR 0x0D,
                            CHR 0x1C, CHR 0x1D, CHR 0x1E, CHR 0x1F, CHR 0x20,
                            CHR 0x85, CHR 0xA0])"

definition strip :: "string \<Rightarrow> string" where
  "strip s = rev (dropWhile is_space (rev (dropWhile is_space s)))"

text \<open>
  The capitals below U+0100 are \<^verbatim>\<open>A\<close> to \<^verbatim>\<open>Z\<close> and U+00C0 to U+00DE without the
  multiplication sign U+00D7; the small letter of each stands 32 places further.
\<close>

definition lower_char :: "char \<Rightarrow> char" where
  "lower_char c =
     (let n = (of_char c :: nat)
      in if (65 \<le> n \<and> n \<le> 90) \<or> (192 \<le> n \<and> n \<le> 222 \<and> n \<noteq> 215)
         then char_of (n + 32) else c)"

definition upper_char :: "char \<Rightarrow> char" where
  "upper_char c =
     (case map_of (zip ''abcdefghijklmnopqrstuvwxyz'' ''ABCDEFGHIJKLMNOPQRSTUVWXYZ'') c of
        Some d \<Rightarrow> d | None \<Rightarrow> c)"

definition lower :: "string \<Rightarrow> string" where
  "lower s = map lower_char s"

definition upper :: "string \<Rightarrow> string" where
  "upper s = map upper_char s"

text \<open>\<^verbatim>\<open>str(x)\<close> of a value that may be \<^verbatim>\<open>None\<close>, as an f-string prints it.\<close>

definition py_str :: "string option \<Rightarrow> string" where
  "py_str v = (case v of None \<Rightarrow> ''None'' | Some s \<Rightarrow> s)"


text \<open>Names for the roles a string plays in a signature.\<close>

type_synonym account = string
type_synonym address = string
type_synonym thread_ref = string
type_synonym person = string
type_synonym day = string
type_synonym clock_time = string
type_synonym place = string

definition nl :: string where
  "nl = [CHR 0x0A]"

text \<open>\<^verbatim>\<open>repr\<close> of a plain key or name, as \<^verbatim>\<open>str\<close> of a \<^verbatim>\<open>KeyError\<close> or \<^verbatim>\<open>NameError\<close> shows it.\<close>

definition quoted :: "string \<Rightarrow> string" where
  "quoted s = [CHR 0x27] @ s @ [CHR 0x27]"


section \<open>Computations that log their effects and may raise\<close>

text \<open>
  The body of a \<^verbatim>\<open>try\<close> block is a value of type \<open>'a comp\<close>: the exception message
  (\<^verbatim>\<open>str(e)\<close>) or the value, with the effects issued so far, in order.
\<close>

record credentials =
  expired :: bool
  refresh_token :: "string option"

text \<open>
  The MIME tree that the source builds (\<^verbatim>\<open>MIMEMultipart('alternative')\<close>, its headers
  and its two parts), and the message handed to the provider: \<open>raw\<close> is the text that
  \<^verbatim>\<open>base64.urlsafe_b64encode(message.as_bytes()).decode()\<close> gives for the tree. That
  serialisation is the library's and is a parameter of the model (\<open>as_bytes\<close> below); it
  need not keep the parts character for character (it rewrites line ends, for one).
\<close>

record mime =
  hdr_to :: string
  hdr_from :: string
  hdr_subject :: string
  hdr_in_reply_to :: "string option"
  hdr_references :: "string option"
  hdr_cc :: "string option"
  hdr_bcc :: "string option"
  plain_part :: string
  html_part :: string

record msg_body =
  raw :: string
  threadId :: "string option"

text \<open>
  The body of a calendar insertion: the two \<^verbatim>\<open>dateTime\<close> texts (both with time zone
  \<^verbatim>\<open>Asia/Singapore\<close>), the minutes of the two e-mail reminder overrides
  (\<^verbatim>\<open>useDefault\<close> is false), and \<^verbatim>\<open>colorId\<close> when the key is set.
\<close>

record event_body =
  summary :: string
  location :: string
  description :: string
  start_dateTime :: string
  end_dateTime :: string
  timeZone :: string
  reminder_minutes :: "nat list"
  colorId :: "string option"

record api_event =
  resp_event_id :: "string option"
  resp_htmlLink :: "string option"

text \<open>What the provider answers to a send or a draft creation (\<^verbatim>\<open>.get\<close> on a missing key gives \<^verbatim>\<open>None\<close>).\<close>

record api_message =
  resp_id :: "string option"
  resp_threadId :: "string option"

text \<open>
  The calls a run makes to what lies outside the script, in order: the provider's API, the
  console, and the serialiser of the library (\<open>AsBytes\<close>, with the tree it is given).
\<close>

datatype effect =
    GetProfile
  | ThreadsGet string
  | DraftsCreate msg_body
  | MessagesSend msg_body
  | EventsInsert string event_body
  | MessagesList string
  | MessagesGet string
  | Prompt string
  | AsBytes mime

type_synonym 'a comp = "(string + 'a) \<times> effect list"

definition ret :: "'a \<Rightarrow> 'a comp" where
  "ret x = (Inr x, [])"

definition raise :: "string \<Rightarrow> 'a comp" where
  "raise e = (Inl e, [])"

definition bnd :: "'a comp \<Rightarrow> ('a \<Rightarrow> 'b comp) \<Rightarrow> 'b comp" where
  "bnd m f = (case m of
       (Inl e, l) \<Rightarrow> (Inl e, l)
     | (Inr x, l) \<Rightarrow> (case f x of (r, l') \<Rightarrow> (r, l @ l')))"

definition call :: "effect \<Rightarrow> string + 'a \<Rightarrow> 'a comp" where
  "call c r = (r, [c])"


section \<open>The mail tools: \<^verbatim>\<open>send_email.py\<close>\<close>

datatype token_file = Pickled "credentials option" | Corrupt string

type_synonym token_store = "string \<Rightarrow> token_file option"

text \<open>
  Everything outside the script: the home directory and the files under it, the
  authorisation service (\<open>refresh\<close>), the provider's API with one answer per call
  (\<open>Inl\<close> the message of the exception it raises), the serialiser of the library, and
  the line the operator types (\<open>None\<close>: end of input). \<open>home_fails\<close> is the message
  of the \<^verbatim>\<open>RuntimeError\<close> of \<^verbatim>\<open>Path.home()\<close> when the home directory cannot be
  determined; \<open>stat_fails\<close> gives, for a path, the message of the \<^verbatim>\<open>OSError\<close> that
  \<^verbatim>\<open>Path.exists()\<close> lets through there (a name that is too long, a directory that may
  not be searched), if there is one.
\<close>

record env =
  home :: string
  home_fails :: "string option"
  token_store :: token_store
  stat_fails :: "string \<Rightarrow> string option"
  refresh :: "credentials \<Rightarrow> string + credentials"
  build_fails :: "string option"
  getProfile :: "string + string option"
  threads_get :: "string \<Rightarrow> string + string option list option"
  drafts_create :: "msg_body \<Rightarrow> string + api_message"
  messages_send :: "msg_body \<Rightarrow> string + api_message"
  as_bytes :: "mime \<Rightarrow> string + string"
  operator_input :: "string option"
  read_file :: "string \<Rightarrow> string + string"
  stdin_text :: string
  events_insert :: "string \<Rightarrow> event_body \<Rightarrow> string + api_event"
  datetime_fields :: "string \<Rightarrow> string \<Rightarrow> string \<Rightarrow> string + string \<times> string"

text \<open>The result dictionary; \<open>None\<close> is an absent key (or a null value).\<close>

record result =
  success :: bool
  error :: "string option"
  preview_only :: "bool option"
  is_draft :: "bool option"
  draft_id :: "string option"
  message_id :: "string option"
  thread_id :: "string option"
  sender :: "string option"
  rcpt_to :: "string option"
  subject :: "string option"
  client :: "string option"
  poc :: "string option"

definition no_result :: result where
  "no_result = \<lparr>success = False, error = None, preview_only = None, is_draft = None,
     draft_id = None, message_id = None, thread_id = None, sender = None, rcpt_to = None,
     subject = None, client = None, poc = None\<rparr>"

definition failure :: "string \<Rightarrow> result" where
  "failure e = no_result\<lparr>error := Some e\<rparr>"

definition user_cancelled :: result where
  "user_cancelled = no_result\<lparr>error := Some ''User cancelled'', preview_only := Some True\<rparr>"

text \<open>
  What a call of an operation leaves: the dictionary it returns (\<open>Inl\<close>: the message of
  an exception that leaves the function instead), its calls, and the token files.
\<close>

record run =
  res :: "string + result"
  log :: "effect list"
  tokens :: token_store

text \<open>\<^verbatim>\<open>except Exception as e: return {'success': False, 'error': str(e)}\<close>\<close>

definition except_handler :: "token_store \<Rightarrow> result comp \<Rightarrow> run" where
  "except_handler ts m = (case m of
       (Inl e, l) \<Rightarrow> \<lparr>res = Inr (failure e), log = l, tokens = ts\<rparr>
     | (Inr r, l) \<Rightarrow> \<lparr>res = Inr r, log = l, tokens = ts\<rparr>)"

text \<open>
  \<^verbatim>\<open>base / segment\<close> of \<^verbatim>\<open>pathlib\<close>: an absolute segment replaces the base. A path is
  the key of a file; the normalisation \<^verbatim>\<open>pathlib\<close> applies to it is not modelled.
\<close>

definition joinpath :: "string \<Rightarrow> string \<Rightarrow> string" where
  "joinpath base seg = (if take 1 seg = ''/'' then seg else base @ ''/'' @ seg)"

text \<open>
  \<^verbatim>\<open>Path.home()\<close> and \<^verbatim>\<open>path.exists()\<close>: they stand outside every \<^verbatim>\<open>try\<close> of
  the scripts, so what they raise leaves the function that calls them. \<open>seq\<close> sequences
  such steps.
\<close>

definition path_home :: "env \<Rightarrow> string + string" where
  "path_home E = (case home_fails E of Some e \<Rightarrow> Inl e | None \<Rightarrow> Inr (home E))"

definition path_exists :: "env \<Rightarrow> string \<Rightarrow> string + bool" where
  "path_exists E p =
     (case stat_fails E p of Some e \<Rightarrow> Inl e | None \<Rightarrow> Inr (token_store E p \<noteq> None))"

definition seq :: "string + 'a \<Rightarrow> ('a \<Rightarrow> string + 'b) \<Rightarrow> string + 'b" where
  "seq r f = (case r of Inl e \<Rightarrow> Inl e | Inr x \<Rightarrow> f x)"

text \<open>
  \<^verbatim>\<open>get_credentials_path\<close> and \<^verbatim>\<open>load_credentials\<close> of \<^verbatim>\<open>send_email.py\<close>; \<open>Inl\<close> is
  an exception that leaves the function. A file that cannot be read or unpickled, and a
  refresh that fails, raise inside the \<^verbatim>\<open>try\<close> and give \<^verbatim>\<open>None\<close>; writing the
  refreshed token back is taken to succeed. The line printed to the error stream is not
  modelled.
\<close>

definition get_credentials_path :: "env \<Rightarrow> string \<Rightarrow> string + string option" where
  "get_credentials_path E account =
     seq (path_home E) (\<lambda>home_dir.
     let base_path = home_dir @ ''/.nanobot/credentials/gmail'';
         token_file = joinpath base_path (str_replace ''@'' ''_at_'' account @ ''.token'');
         alt_path = joinpath (home_dir @ ''/.nanobot/credentials'') (account @ ''.json'')
     in seq (path_exists E token_file) (\<lambda>found.
        seq (if \<not> found then path_exists E alt_path else Inr False) (\<lambda>alt_found.
        if alt_found then Inr (Some alt_path)
        else seq (path_exists E token_file) (\<lambda>still.
             Inr (if still then Some token_file else None)))))"

definition load_credentials ::
  "env \<Rightarrow> string \<Rightarrow> string + credentials option \<times> token_store" where
  "load_credentials E account =
     seq (get_credentials_path E account) (\<lambda>found. Inr
       (case found of
          None \<Rightarrow> (None, token_store E)
        | Some creds_path \<Rightarrow>
            (case token_store E creds_path of
               None \<Rightarrow> (None, token_store E)
             | Some (Corrupt e) \<Rightarrow> (None, token_store E)
             | Some (Pickled None) \<Rightarrow> (None, token_store E)
             | Some (Pickled (Some creds)) \<Rightarrow>
                 if expired creds \<and> truthy (refresh_token creds)
                 then (case refresh E creds of
                         Inl e \<Rightarrow> (None, token_store E)
                       | Inr creds' \<Rightarrow>
                           (Some creds',
                            (token_store E)(creds_path \<mapsto> Pickled (Some creds'))))
                 else (Some creds, token_store E))))"

definition build_service :: "env \<Rightarrow> unit comp" where
  "build_service E = (case build_fails E of Some e \<Rightarrow> raise e | None \<Rightarrow> ret ())"

text \<open>\<^verbatim>\<open># Get sender email\<close>: the override, or the profile's address (the account if it has none).\<close>

definition get_sender :: "env \<Rightarrow> string \<Rightarrow> string option \<Rightarrow> string comp" where
  "get_sender E account from_address =
     (if truthy from_address then ret (py_str from_address)
      else bnd (call GetProfile (getProfile E))
             (\<lambda>profile. ret (case profile of Some a \<Rightarrow> a | None \<Rightarrow> account)))"

text \<open>
  \<^verbatim>\<open>input(question)\<close>: end of input raises \<^verbatim>\<open>EOFError\<close>. The preview that
  \<^verbatim>\<open>preview_email\<close> prints before the question is console output only; writing to
  the console is taken to succeed and is not modelled. An interrupt from the keyboard is
  no \<^verbatim>\<open>Exception\<close> and is outside the model.
\<close>

definition input_line :: "env \<Rightarrow> string \<Rightarrow> string comp" where
  "input_line E question =
     call (Prompt question)
       (case operator_input E of None \<Rightarrow> Inl ''EOF when reading a line'' | Some s \<Rightarrow> Inr s)"

definition affirmative :: "string \<Rightarrow> bool" where
  "affirmative response = (response \<in> set [''yes'', ''y'', ''send'', ''draft''])"

text \<open>\<^verbatim>\<open>send_email\<close>: first its \<^verbatim>\<open>try\<close> block (lines 104 to 174), then the function.\<close>

definition send_email_try ::
  "env \<Rightarrow> account \<Rightarrow> address \<Rightarrow> string \<Rightarrow> string \<Rightarrow> string option \<Rightarrow> string option \<Rightarrow>
   bool \<Rightarrow> string option \<Rightarrow> bool \<Rightarrow> string option \<Rightarrow> result comp" where
  "send_email_try E account to subj body cc bcc auto_confirm from_address draft thread =
     bnd (build_service E) (\<lambda>service.
     bnd (get_sender E account from_address) (\<lambda>sender_addr.
     let deliver =
       (let message = \<lparr>hdr_to = to, hdr_from = sender_addr, hdr_subject = subj,
              hdr_in_reply_to = None, hdr_references = None,
              hdr_cc = (if truthy cc then cc else None),
              hdr_bcc = (if truthy bcc then bcc else None),
              plain_part = body, html_part = str_replace [CHR 0x0A] ''<br>'' body\<rparr>
        in bnd (call (AsBytes message) (as_bytes E message)) (\<lambda>raw_text.
           let msg = \<lparr>raw = raw_text, threadId = (if truthy thread then thread else None)\<rparr>
           in if draft
              then bnd (call (DraftsCreate msg) (drafts_create E msg)) (\<lambda>saved.
                   ret (no_result\<lparr>success := True, draft_id := resp_id saved,
                          sender := Some sender_addr, rcpt_to := Some to,
                          subject := Some subj, is_draft := Some True\<rparr>))
              else bnd (call (MessagesSend msg) (messages_send E msg)) (\<lambda>sent.
                   ret (no_result\<lparr>success := True, message_id := resp_id sent,
                          thread_id := resp_threadId sent, sender := Some sender_addr,
                          rcpt_to := Some to, subject := Some subj\<rparr>))))
     in if \<not> auto_confirm
        then bnd (input_line E ((if draft then ''Save as draft'' else ''Send'')
                                @ '' this email? (yes/no): '')) (\<lambda>line.
             if \<not> affirmative (lower (strip line)) then ret user_cancelled else deliver)
        else deliver))"

definition send_email ::
  "env \<Rightarrow> account \<Rightarrow> address \<Rightarrow> string \<Rightarrow> string \<Rightarrow> string option \<Rightarrow> string option \<Rightarrow>
   bool \<Rightarrow> string option \<Rightarrow> bool \<Rightarrow> string option \<Rightarrow> run" where
  "send_email E account to subj body cc bcc auto_confirm from_address draft thread =
     (case load_credentials E account of
        Inl e \<Rightarrow> \<lparr>res = Inl e, log = [], tokens = token_store E\<rparr>
      | Inr (None, ts) \<Rightarrow>
          \<lparr>res = Inr (failure (''No credentials found for '' @ account
                                  @ ''. Run OAuth setup first.'')),
           log = [], tokens = ts\<rparr>
      | Inr (Some creds, ts) \<Rightarrow> except_handler ts
          (send_email_try E account to subj body cc bcc auto_confirm from_address draft thread))"

text \<open>\<^verbatim>\<open>thread['messages'][-1]['id']\<close>, with the three ways it can raise.\<close>

definition last_message_id :: "string option list option \<Rightarrow> string comp" where
  "last_message_id thread =
     (case thread of
        None \<Rightarrow> raise (quoted ''messages'')
      | Some msgs \<Rightarrow>
          if msgs = [] then raise ''list index out of range''
          else (case last msgs of None \<Rightarrow> raise (quoted ''id'') | Some i \<Rightarrow> ret i))"

text \<open>
  \<^verbatim>\<open>send_reply\<close>: its \<^verbatim>\<open>try\<close> block (lines 194 to 266), then the function. Here
  the message is built and serialised (line 228) before the operator is asked.
\<close>

definition send_reply_try ::
  "env \<Rightarrow> account \<Rightarrow> thread_ref \<Rightarrow> address \<Rightarrow> string \<Rightarrow> string \<Rightarrow> string option \<Rightarrow>
   bool \<Rightarrow> string option \<Rightarrow> bool \<Rightarrow> result comp" where
  "send_reply_try E account thread to subj body cc auto_confirm from_address draft =
     bnd (build_service E) (\<lambda>service.
     bnd (get_sender E account from_address) (\<lambda>sender_addr.
     bnd (call (ThreadsGet thread) (threads_get E thread)) (\<lambda>thr.
     bnd (last_message_id thr) (\<lambda>original_msg_id.
     let message = \<lparr>hdr_to = to, hdr_from = sender_addr,
            hdr_subject = ''Re: '' @ str_replace ''Re: '' [] subj,
            hdr_in_reply_to = Some original_msg_id,
            hdr_references = Some original_msg_id,
            hdr_cc = (if truthy cc then cc else None), hdr_bcc = None,
            plain_part = body, html_part = str_replace [CHR 0x0A] ''<br>'' body\<rparr>
     in bnd (call (AsBytes message) (as_bytes E message)) (\<lambda>raw_text.
        let msg = \<lparr>raw = raw_text, threadId = Some thread\<rparr>;
            deliver =
              (if draft
               then bnd (call (DraftsCreate msg) (drafts_create E msg)) (\<lambda>saved.
                    ret (no_result\<lparr>success := True, draft_id := resp_id saved,
                           thread_id := Some thread, sender := Some sender_addr,
                           rcpt_to := Some to, subject := Some subj,
                           is_draft := Some True\<rparr>))
               else bnd (call (MessagesSend msg) (messages_send E msg)) (\<lambda>sent.
                    ret (no_result\<lparr>success := True, message_id := resp_id sent,
                           thread_id := resp_threadId sent, sender := Some sender_addr,
                           rcpt_to := Some to, subject := Some subj\<rparr>)))
        in if \<not> auto_confirm
           then bnd (input_line E ((if draft then ''Save as draft'' else ''Send'')
                                   @ '' this reply? (yes/no): '')) (\<lambda>line.
                if \<not> affirmative (lower (strip line)) then ret user_cancelled else deliver)
           else deliver)))))"

definition send_reply ::
  "env \<Rightarrow> account \<Rightarrow> thread_ref \<Rightarrow> address \<Rightarrow> string \<Rightarrow> string \<Rightarrow> string option \<Rightarrow>
   bool \<Rightarrow> string option \<Rightarrow> bool \<Rightarrow> run" where
  "send_reply E account thread to subj body cc auto_confirm from_address draft =
     (case load_credentials E account of
        Inl e \<Rightarrow> \<lparr>res = Inl e, log = [], tokens = token_store E\<rparr>
      | Inr (None, ts) \<Rightarrow>
          \<lparr>res = Inr (failure (''No credentials found for '' @ account)), log = [],
           tokens = ts\<rparr>
      | Inr (Some creds, ts) \<Rightarrow> except_handler ts
          (send_reply_try E account thread to subj body cc auto_confirm from_address draft))"

text \<open>
  The output of \<^verbatim>\<open>main\<close>: a line of text, a line that starts with one of the three
  pictographs of the source, or the result dictionary as \<^verbatim>\<open>json.dumps\<close> prints it.
  An exception that leaves \<^verbatim>\<open>send_email\<close> or \<^verbatim>\<open>send_reply\<close> ends the process before
  anything of the result is printed.
\<close>

datatype glyph = CHECK_MARK | CLIPBOARD | CROSS_MARK

datatype line = Text string | Marked glyph string | Json result

text \<open>How a process ends: its exit status, or the message of the exception that ended it.\<close>

datatype exit = Exit nat | Uncaught string

record send_args =
  arg_account :: string
  arg_to :: string
  arg_subject :: string
  arg_body :: "string option"
  arg_body_file :: "string option"
  arg_cc :: "string option"
  arg_bcc :: "string option"
  arg_from_address :: "string option"
  arg_reply_to :: "string option"
  arg_reply_subject :: "string option"
  arg_draft :: bool
  arg_yes :: bool
  arg_json :: bool

record proc =
  status :: exit
  out :: "line list"
  calls :: "effect list"
  tokens_after :: token_store

text \<open>\<^verbatim>\<open># Output result\<close> (lines 334 to 350).\<close>

definition render_result :: "bool \<Rightarrow> result \<Rightarrow> line list" where
  "render_result as_json r =
     (if as_json then [Json r]
      else if success r then
        (if is_draft r = Some True
         then [Marked CHECK_MARK '' Draft saved successfully!'',
               Text (''   Draft ID: '' @ py_str (draft_id r))]
         else [Marked CHECK_MARK '' Email sent successfully!'',
               Text (''   Message ID: '' @ py_str (message_id r))])
        @ [Text (''   From: '' @ py_str (sender r)),
           Text (''   To: '' @ py_str (rcpt_to r)),
           Text (''   Subject: '' @ py_str (subject r))]
      else if preview_only r = Some True
        then [Marked CLIPBOARD '' Preview shown. Email not saved/sent.'']
      else [Marked CROSS_MARK ('' Failed: '' @ py_str (error r))])"

definition main :: "env \<Rightarrow> send_args \<Rightarrow> proc" where
  "main E a =
     (case (if truthy (arg_body_file a)
            then (case read_file E (py_str (arg_body_file a)) of
                    Inl e \<Rightarrow> Inl e | Inr content \<Rightarrow> Inr (content, []))
            else if truthy (arg_body a) then Inr (py_str (arg_body a), [])
            else Inr (stdin_text E, [Text ''Enter email body (Ctrl+D to finish):''])) of
        Inl e \<Rightarrow> \<lparr>status = Uncaught e, out = [], calls = [], tokens_after = token_store E\<rparr>
      | Inr (body, printed) \<Rightarrow>
          if truthy (arg_reply_to a) \<and> \<not> truthy (arg_reply_subject a)
          then \<lparr>status = Exit 1,
                out = printed @ [Text ''Error: --reply-subject required when using --reply-to''],
                calls = [], tokens_after = token_store E\<rparr>
          else
            let r = (if truthy (arg_reply_to a)
                     then send_reply E (arg_account a) (py_str (arg_reply_to a)) (arg_to a)
                            (py_str (arg_reply_subject a)) body (arg_cc a) (arg_yes a)
                            (arg_from_address a) (arg_draft a)
                     else send_email E (arg_account a) (arg_to a) (arg_subject a) body
                            (arg_cc a) (arg_bcc a) (arg_yes a) (arg_from_address a)
                            (arg_draft a) (arg_reply_to a))
            in (case res r of
                  Inl e \<Rightarrow> \<lparr>status = Uncaught e, out = printed, calls = log r,
                            tokens_after = tokens r\<rparr>
                | Inr result \<Rightarrow>
                    \<lparr>status = Exit (if success result then 0 else 1),
                     out = printed @ render_result (arg_json a) result,
                     calls = log r, tokens_after = tokens r\<rparr>))"


section \<open>The designer notification: \<^verbatim>\<open>notify_designer.py\<close>\<close>

text \<open>
  Its \<^verbatim>\<open>get_credentials_path\<close> and \<^verbatim>\<open>load_credentials\<close> are the ones of
  \<^verbatim>\<open>send_email.py\<close>, line for line.
\<close>

definition DESIGNER_EMAIL :: string where
  "DESIGNER_EMAIL = ''designer@livemoments.com.sg''"

definition FROM_ADDRESS :: string where
  "FROM_ADDRESS = ''hello@livemoments.com.sg''"

definition build_designer_email ::
  "person \<Rightarrow> person \<Rightarrow> address \<Rightarrow> day \<Rightarrow> clock_time \<Rightarrow> place \<Rightarrow> string \<Rightarrow>
   string \<times> string" where
  "build_designer_email client_name poc_name poc_email date time venue event_type =
     (''New Booking - '' @ client_name @ '' - '' @ date,
      ''Hi Ting Ting,'' @ nl @ nl
      @ ''We have a new instant print booking confirmed.'' @ nl @ nl
      @ ''Please liaise directly with the client for the overlay design:'' @ nl @ nl
      @ ''Client: '' @ poc_name @ nl
      @ ''Email: '' @ poc_email @ nl
      @ ''Event Date: '' @ date @ nl
      @ ''Start Time: '' @ time @ nl
      @ ''Venue: '' @ venue @ nl
      @ ''Event Type: '' @ event_type @ nl @ nl
      @ ''Thank you!'')"

text \<open>\<^verbatim>\<open>send_designer_notification\<close>: its \<^verbatim>\<open>try\<close> block (lines 120 to 183), then the function.\<close>

definition send_designer_notification_try ::
  "env \<Rightarrow> person \<Rightarrow> person \<Rightarrow> address \<Rightarrow> day \<Rightarrow> clock_time \<Rightarrow> place \<Rightarrow> string \<Rightarrow>
   bool \<Rightarrow> bool \<Rightarrow> result comp" where
  "send_designer_notification_try E client_name poc_name poc_email date time venue event_type
       auto_confirm draft =
     bnd (build_service E) (\<lambda>service.
     let subj = fst (build_designer_email client_name poc_name poc_email date time venue
                       event_type);
         body = snd (build_designer_email client_name poc_name poc_email date time venue
                       event_type);
         deliver =
           (let message = \<lparr>hdr_to = DESIGNER_EMAIL, hdr_from = FROM_ADDRESS,
                  hdr_subject = subj, hdr_in_reply_to = None, hdr_references = None,
                  hdr_cc = None, hdr_bcc = None,
                  plain_part = body, html_part = str_replace [CHR 0x0A] ''<br>'' body\<rparr>
            in bnd (call (AsBytes message) (as_bytes E message)) (\<lambda>raw_text.
               let msg = \<lparr>raw = raw_text, threadId = None\<rparr>
               in if draft
                  then bnd (call (DraftsCreate msg) (drafts_create E msg)) (\<lambda>saved.
                       ret (no_result\<lparr>success := True, draft_id := resp_id saved,
                              sender := Some FROM_ADDRESS, rcpt_to := Some DESIGNER_EMAIL,
                              subject := Some subj, is_draft := Some True,
                              client := Some client_name, poc := Some poc_name\<rparr>))
                  else bnd (call (MessagesSend msg) (messages_send E msg)) (\<lambda>sent.
                       ret (no_result\<lparr>success := True, message_id := resp_id sent,
                              thread_id := resp_threadId sent, sender := Some FROM_ADDRESS,
                              rcpt_to := Some DESIGNER_EMAIL, subject := Some subj,
                              client := Some client_name, poc := Some poc_name\<rparr>))))
     in if \<not> auto_confirm
        then bnd (input_line E ((if draft then ''Save as draft'' else ''Send'')
                                @ '' this notification? (yes/no): '')) (\<lambda>line.
             if \<not> affirmative (lower (strip line)) then ret user_cancelled else deliver)
        else deliver)"

definition send_designer_notification ::
  "env \<Rightarrow> account \<Rightarrow> person \<Rightarrow> person \<Rightarrow> address \<Rightarrow> day \<Rightarrow> clock_time \<Rightarrow> place \<Rightarrow>
   string \<Rightarrow> bool \<Rightarrow> bool \<Rightarrow> run" where
  "send_designer_notification E account client_name poc_name poc_email date time venue
       event_type auto_confirm draft =
     (case load_credentials E account of
        Inl e \<Rightarrow> \<lparr>res = Inl e, log = [], tokens = token_store E\<rparr>
      | Inr (None, ts) \<Rightarrow>
          \<lparr>res = Inr (failure (''No credentials found for '' @ account
                                  @ ''. Run OAuth setup first.'')),
           log = [], tokens = ts\<rparr>
      | Inr (Some creds, ts) \<Rightarrow> except_handler ts
          (send_designer_notification_try E client_name poc_name poc_email date time venue
             event_type auto_confirm draft))"


section \<open>The calendar tool: \<^verbatim>\<open>add_calendar_event.py\<close>\<close>

definition CALENDAR_ADMIN :: string where
  "CALENDAR_ADMIN = ''jml0dbb0k0pq0qfdlhdo89oql0@group.calendar.google.com''"

definition CALENDAR_MAIN :: string where
  "CALENDAR_MAIN = ''livemomentssg@gmail.com''"

definition DEFAULT_ACCOUNT :: string where
  "DEFAULT_ACCOUNT = ''livemomentssg@gmail.com''"

record event_result =
  ev_success :: bool
  ev_error :: "string option"
  event_id :: "string option"
  calendar_id :: "string option"
  title :: "string option"
  html_link :: "string option"
  ev_status :: "string option"

definition event_failure :: "string \<Rightarrow> event_result" where
  "event_failure e = \<lparr>ev_success = False, ev_error = Some e, event_id = None,
     calendar_id = None, title = None, html_link = None, ev_status = None\<rparr>"

record event_run =
  ev_res :: "string + event_result"
  ev_log :: "effect list"
  ev_tokens :: token_store
  ev_printed :: "string list"

definition event_handler :: "token_store \<Rightarrow> event_result comp \<Rightarrow> event_run" where
  "event_handler ts m = (case m of
       (Inl e, l) \<Rightarrow>
         \<lparr>ev_res = Inr (event_failure e), ev_log = l, ev_tokens = ts, ev_printed = []\<rparr>
     | (Inr r, l) \<Rightarrow> \<lparr>ev_res = Inr r, ev_log = l, ev_tokens = ts, ev_printed = []\<rparr>)"

text \<open>This script's own \<^verbatim>\<open>get_credentials_path\<close>: one location, no alternative.\<close>

definition cal_get_credentials_path :: "env \<Rightarrow> string \<Rightarrow> string + string option" where
  "cal_get_credentials_path E account =
     seq (path_home E) (\<lambda>home_dir.
     let base_path = home_dir @ ''/.nanobot/credentials/gmail'';
         token_file = joinpath base_path (str_replace ''@'' ''_at_'' account @ ''.token'')
     in seq (path_exists E token_file) (\<lambda>found.
        Inr (if found then Some token_file else None)))"

text \<open>
  This script's own \<^verbatim>\<open>load_credentials\<close>, with the lines it prints. In the first branch
  \<open>creds_path\<close> is the value that has just been tested false.
\<close>

definition cal_load_credentials ::
  "env \<Rightarrow> string \<Rightarrow> string + credentials option \<times> token_store \<times> string list" where
  "cal_load_credentials E account =
     seq (cal_get_credentials_path E account) (\<lambda>creds_path. Inr
       (if creds_path = None
        then (None, token_store E,
              [''Error: No credentials found for '' @ account,
               ''Expected: '' @ py_str creds_path])
        else (case token_store E (py_str creds_path) of
            None \<Rightarrow> (None, token_store E, [])
          | Some (Corrupt e) \<Rightarrow>
              (None, token_store E, [''Error loading credentials: '' @ e])
          | Some (Pickled None) \<Rightarrow> (None, token_store E, [])
          | Some (Pickled (Some creds)) \<Rightarrow>
              if expired creds \<and> truthy (refresh_token creds)
              then (case refresh E creds of
                      Inl e \<Rightarrow> (None, token_store E, [''Error loading credentials: '' @ e])
                    | Inr creds' \<Rightarrow>
                        (Some creds',
                         (token_store E)(py_str creds_path \<mapsto> Pickled (Some creds')), []))
              else (Some creds, token_store E, []))))"

text \<open>\<^verbatim>\<open># Determine calendar based on status\<close> (lines 69 to 76): calendar, colour, title prefix.\<close>

definition route :: "string \<Rightarrow> string \<times> string option \<times> string" where
  "route st =
     (if upper st = ''TBC'' then (CALENDAR_ADMIN, Some ''3'', ''TBC - '')
      else (CALENDAR_MAIN, None, []))"

text \<open>Reading a name inside an f-string: a name that is not bound raises \<^verbatim>\<open>NameError\<close>.\<close>

definition lookup_name :: "(string \<times> string) list \<Rightarrow> string \<Rightarrow> string comp" where
  "lookup_name scope name =
     (case map_of scope name of
        Some v \<Rightarrow> ret v
      | None \<Rightarrow> raise (''name '' @ quoted name @ '' is not defined''))"

fun join :: "string \<Rightarrow> string list \<Rightarrow> string" where
  "join sep [] = []"
| "join sep [x] = x"
| "join sep (x # y # ys) = x @ sep @ join sep (y # ys)"

text \<open>
  \<^verbatim>\<open>add_event\<close>: its \<^verbatim>\<open>try\<close> block (lines 65 to 135), then the function.
  \<open>scope\<close> lists the names bound to text at line 79 (parameters, locals,
  module constants); the other names visible there are the objects \<^verbatim>\<open>creds\<close> and
  \<^verbatim>\<open>service\<close>, the imported modules and the builtins. The f-string of line 79 reads
  \<^verbatim>\<open>title_prefix\<close>, \<^verbatim>\<open>company\<close>, \<^verbatim>\<open>POC\<close> and \<^verbatim>\<open>event_type\<close>, in this order.
  Lines 93 to 98 (\<^verbatim>\<open>strptime\<close>, \<^verbatim>\<open>int\<close>, \<^verbatim>\<open>replace\<close>, \<^verbatim>\<open>isoformat\<close>) are the
  library's: \<open>datetime_fields\<close> gives the two texts or the message of the exception.
\<close>

definition add_event_try ::
  "env \<Rightarrow> account \<Rightarrow> person \<Rightarrow> person \<Rightarrow> string \<Rightarrow> day \<Rightarrow> clock_time \<Rightarrow> clock_time \<Rightarrow>
   place \<Rightarrow> string \<Rightarrow> string option \<Rightarrow> string \<Rightarrow> event_result comp" where
  "add_event_try E account company poc_name event_type date start_time end_time loc email_id
       descr st =
     bnd (build_service E) (\<lambda>service.
     let calendar = fst (route st);
         color_id = fst (snd (route st));
         title_prefix = snd (snd (route st));
         scope = [(''account'', account), (''company'', company), (''poc'', poc_name),
                  (''event_type'', event_type), (''date'', date),
                  (''start_time'', start_time), (''end_time'', end_time),
                  (''location'', loc), (''email_id'', email_id),
                  (''description'', py_str descr), (''status'', st),
                  (''calendar_id'', calendar), (''color_id'', py_str color_id),
                  (''title_prefix'', title_prefix),
                  (''CALENDAR_ADMIN'', CALENDAR_ADMIN), (''CALENDAR_MAIN'', CALENDAR_MAIN),
                  (''DEFAULT_ACCOUNT'', DEFAULT_ACCOUNT)]
     in bnd (lookup_name scope ''title_prefix'') (\<lambda>v1.
        bnd (lookup_name scope ''company'') (\<lambda>v2.
        bnd (lookup_name scope ''POC'') (\<lambda>v3.
        bnd (lookup_name scope ''event_type'') (\<lambda>v4.
        let event_title = v1 @ v2 @ '' - '' @ v3 @ '' ('' @ upper v4 @ '')'';
            desc_parts = (if email_id \<noteq> [] then [''Email ID: '' @ email_id] else [])
               @ (if truthy descr then [py_str descr] else [])
               @ [''Status: '' @ st, ''POC: '' @ poc_name];
            full_description = join (nl @ nl) desc_parts
        in bnd (datetime_fields E date start_time end_time, []) (\<lambda>dts.
           let body = \<lparr>summary = event_title, location = loc,
                  description = full_description,
                  start_dateTime = fst dts, end_dateTime = snd dts,
                  timeZone = ''Asia/Singapore'',
                  reminder_minutes = [7 * 24 * 60, 3 * 24 * 60],
                  colorId = (if truthy color_id then color_id else None)\<rparr>
           in bnd (call (EventsInsert calendar body) (events_insert E calendar body))
                (\<lambda>event.
              ret \<lparr>ev_success = True, ev_error = None,
                   event_id = resp_event_id event, calendar_id = Some calendar,
                   title = Some event_title, html_link = resp_htmlLink event,
                   ev_status = Some st\<rparr>)))))))"

definition add_event ::
  "env \<Rightarrow> account \<Rightarrow> person \<Rightarrow> person \<Rightarrow> string \<Rightarrow> day \<Rightarrow> clock_time \<Rightarrow> clock_time \<Rightarrow>
   place \<Rightarrow> string \<Rightarrow> string option \<Rightarrow> string \<Rightarrow> event_run" where
  "add_event E account company poc_name event_type date start_time end_time loc email_id
       descr st =
     (case cal_load_credentials E account of
        Inl e \<Rightarrow> \<lparr>ev_res = Inl e, ev_log = [], ev_tokens = token_store E, ev_printed = []\<rparr>
      | Inr (None, ts, printed) \<Rightarrow>
          \<lparr>ev_res = Inr (event_failure ''No credentials found''), ev_log = [],
           ev_tokens = ts, ev_printed = printed\<rparr>
      | Inr (Some creds, ts, printed) \<Rightarrow> event_handler ts
          (add_event_try E account company poc_name event_type date start_time end_time loc
             email_id descr st))"

text \<open>
  \<^verbatim>\<open>main\<close> of the calendar tool up to its exit status: the parser refuses (status 2) a
  \<^verbatim>\<open>--type\<close> or \<^verbatim>\<open>--status\<close> outside its \<^verbatim>\<open>choices\<close>; an absent \<^verbatim>\<open>--status\<close> is
  \<^verbatim>\<open>TBC\<close>. The lines it prints are not modelled.
\<close>

record event_args =
  ea_account :: "string option"
  ea_company :: string
  ea_poc :: string
  ea_type :: string
  ea_date :: string
  ea_start :: string
  ea_end :: string
  ea_location :: string
  ea_email_id :: string
  ea_description :: "string option"
  ea_status :: "string option"

definition calendar_main :: "env \<Rightarrow> event_args \<Rightarrow> exit \<times> event_run option" where
  "calendar_main E a =
     (let st = (case ea_status a of None \<Rightarrow> ''TBC'' | Some s \<Rightarrow> s)
      in if ea_type a \<notin> set [''EVENT'', ''LIVE''] \<or> st \<notin> set [''TBC'', ''CONFIRMED'']
         then (Exit 2, None)
         else let r = add_event E
                    (case ea_account a of None \<Rightarrow> DEFAULT_ACCOUNT | Some acc \<Rightarrow> acc)
                    (ea_company a) (ea_poc a) (ea_type a) (ea_date a) (ea_start a) (ea_end a)
                    (ea_location a) (ea_email_id a) (ea_description a) st
              in (case ev_res r of
                    Inl e \<Rightarrow> (Uncaught e, Some r)
                  | Inr result \<Rightarrow> (Exit (if ev_success result then 0 else 1), Some r)))"


section \<open>The capture tool: \<^verbatim>\<open>capture_email.py\<close>\<close>

text \<open>
  A message part: its \<^verbatim>\<open>mimeType\<close> (empty when absent), the \<^verbatim>\<open>data\<close> of its
  \<^verbatim>\<open>body\<close> when the key is there, and its \<^verbatim>\<open>parts\<close> when the key is there.
\<close>

datatype part = Part string "string option" "part list option"

record gmail_message =
  msg_headers :: "(string \<times> string) list"
  msg_payload :: part
  msg_snippet :: string

record message_ref =
  ref_id :: "string option"
  ref_threadId :: "string option"

record email_data =
  captured_at :: string
  em_message_id :: string
  em_thread_id :: string
  em_from :: string
  em_to :: string
  em_cc :: string
  em_bcc :: string
  em_subject :: string
  em_date :: string
  em_body :: string
  search_query :: string
  snippet :: string

text \<open>
  The cache file as \<^verbatim>\<open>json.load\<close> reads it: not JSON at all, an object (its keys in
  order, each once), or another JSON value, on which the assignment of line 161 raises
  the \<^verbatim>\<open>TypeError\<close> whose message is given. A value of the object is a captured record or
  anything else.
\<close>

datatype cache_value = Captured email_data | Other_value string

datatype cache_content =
    Not_json
  | Json_object "(string \<times> cache_value) list"
  | Json_other string

text \<open>
  What the capture tool sees: the two provider calls, the base64 and UTF-8 decoding of the
  library (\<open>Inl\<close> when it raises), the clock at each reading, and the cache file at the
  path in use (\<open>None\<close>: no such file).
\<close>

record capture_env =
  list_messages :: "string \<Rightarrow> string + message_ref list"
  get_message :: "string \<Rightarrow> string + gmail_message"
  b64decode :: "string \<Rightarrow> string + string"
  now :: "nat \<Rightarrow> string"
  cache_file :: "cache_content option"

definition decode_data :: "(string \<Rightarrow> string + string) \<Rightarrow> string option \<Rightarrow> string + string" where
  "decode_data dec d = (case d of Some x \<Rightarrow> dec x | None \<Rightarrow> Inr [])"

text \<open>\<^verbatim>\<open>decode_body\<close>; \<open>decode_parts\<close> is its loop, with \<open>body\<close> the text found so far.\<close>

fun decode_body :: "(string \<Rightarrow> string + string) \<Rightarrow> part \<Rightarrow> string + string"
  and decode_parts :: "(string \<Rightarrow> string + string) \<Rightarrow> part list \<Rightarrow> string \<Rightarrow> string + string"
where
  "decode_body dec (Part mime_type d (Some ps)) = decode_parts dec ps []"
| "decode_body dec (Part mime_type d None) = decode_data dec d"
| "decode_parts dec [] body = Inr body"
| "decode_parts dec (Part mime_type d sub # ps) body =
     (if mime_type = ''text/plain'' \<and> d \<noteq> None then decode_data dec d
      else if mime_type = ''text/html'' \<and> d \<noteq> None then
        (if body = [] then
           (case decode_data dec d of
              Inl e \<Rightarrow> Inl e
            | Inr b \<Rightarrow> decode_parts dec ps b)
         else decode_parts dec ps body)
      else if sub \<noteq> None then
        (case decode_body dec (Part mime_type d sub) of
           Inl e \<Rightarrow> Inl e
         | Inr nested_body \<Rightarrow> if nested_body \<noteq> [] then Inr nested_body
                               else decode_parts dec ps body)
      else decode_parts dec ps body)"

text \<open>\<^verbatim>\<open>extract_headers\<close>; a header is its name and its value (empty when absent).\<close>

definition extract_headers :: "(string \<times> string) list \<Rightarrow> (string \<rightharpoonup> string)" where
  "extract_headers headers =
     fold (\<lambda>(name, v) r.
             if lower name \<in> set [''from'', ''to'', ''cc'', ''bcc'', ''subject'', ''date'',
                                    ''message-id'']
             then r(lower name \<mapsto> v) else r)
          headers Map.empty"

definition get_or_empty :: "(string \<rightharpoonup> string) \<Rightarrow> string \<Rightarrow> string" where
  "get_or_empty m k = (case m k of Some v \<Rightarrow> v | None \<Rightarrow> [])"

text \<open>The loop of lines 115 to 146; \<open>n\<close> counts the readings of the clock.\<close>

fun capture_loop ::
  "capture_env \<Rightarrow> string \<Rightarrow> nat \<Rightarrow> message_ref list \<Rightarrow> email_data list comp" where
  "capture_loop E query n [] = ret []"
| "capture_loop E query n (msg_meta # rest) =
     (case ref_id msg_meta of
        None \<Rightarrow> raise (quoted ''id'')
      | Some msg_id \<Rightarrow>
     (case ref_threadId msg_meta of
        None \<Rightarrow> raise (quoted ''threadId'')
      | Some thread \<Rightarrow>
          bnd (call (MessagesGet msg_id) (get_message E msg_id)) (\<lambda>msg.
          let headers = extract_headers (msg_headers msg)
          in bnd (decode_body (b64decode E) (msg_payload msg), []) (\<lambda>body.
             let email = \<lparr>captured_at = now E n, em_message_id = msg_id,
                    em_thread_id = thread,
                    em_from = get_or_empty headers ''from'',
                    em_to = get_or_empty headers ''to'',
                    em_cc = get_or_empty headers ''cc'',
                    em_bcc = get_or_empty headers ''bcc'',
                    em_subject = get_or_empty headers ''subject'',
                    em_date = get_or_empty headers ''date'',
                    em_body = (if body \<noteq> [] then take 5000 body else []),
                    search_query = query, snippet = msg_snippet msg\<rparr>
             in bnd (capture_loop E query (Suc n) rest) (\<lambda>captured.
                ret (email # captured))))))"

text \<open>The cache key of line 160.\<close>

definition cache_key :: "email_data \<Rightarrow> string" where
  "cache_key email = em_thread_id email @ ''_'' @ take 8 (em_message_id email)"

text \<open>
  \<^verbatim>\<open>d[k] = v\<close> on a dictionary: the value of an existing key is replaced where it
  stands, a new key goes to the end.
\<close>

fun dict_set :: "string \<Rightarrow> 'v \<Rightarrow> (string \<times> 'v) list \<Rightarrow> (string \<times> 'v) list" where
  "dict_set k v [] = [(k, v)]"
| "dict_set k v (p # ps) = (if fst p = k then (k, v) # ps else p # dict_set k v ps)"

text \<open>The loop of lines 159 to 161.\<close>

fun add_captures :: "email_data list \<Rightarrow> (string \<times> cache_value) list \<Rightarrow> (string \<times> cache_value) list" where
  "add_captures [] cache_data = cache_data"
| "add_captures (email # rest) cache_data =
     add_captures rest (dict_set (cache_key email) (Captured email) cache_data)"

text \<open>
  Lines 150 to 161 up to the first assignment: a missing or unreadable file is the empty
  dictionary; a JSON value that is no object raises at the first assignment (there is one:
  \<open>captured\<close> is not empty here).
\<close>

definition load_cache :: "cache_content option \<Rightarrow> string + (string \<times> cache_value) list" where
  "load_cache f = (case f of
       None \<Rightarrow> Inr []
     | Some Not_json \<Rightarrow> Inr []
     | Some (Json_object kvs) \<Rightarrow> Inr kvs
     | Some (Json_other e) \<Rightarrow> Inl e)"

record capture_run =
  returned :: "string + email_data list option"
  cap_log :: "effect list"
  cache_after :: "cache_content option"

text \<open>
  \<^verbatim>\<open>capture_email\<close>: \<open>Inl\<close> is an exception that leaves the function (it has no handler
  around the provider's calls). \<^verbatim>\<open>json_output\<close> only selects what is printed, and
  \<^verbatim>\<open>cache_path\<close> which file is the cache; neither is a parameter here.
\<close>

definition capture_email :: "capture_env \<Rightarrow> string \<Rightarrow> bool \<Rightarrow> capture_run" where
  "capture_email E query save =
     (case bnd (call (MessagesList query) (list_messages E query)) (\<lambda>messages.
             if messages = [] then ret None
             else bnd (capture_loop E query 0 messages) (\<lambda>captured. ret (Some captured))) of
        (Inl e, l) \<Rightarrow> \<lparr>returned = Inl e, cap_log = l, cache_after = cache_file E\<rparr>
      | (Inr None, l) \<Rightarrow> \<lparr>returned = Inr None, cap_log = l, cache_after = cache_file E\<rparr>
      | (Inr (Some captured), l) \<Rightarrow>
          if save then
            (case load_cache (cache_file E) of
               Inl e \<Rightarrow> \<lparr>returned = Inl e, cap_log = l, cache_after = cache_file E\<rparr>
             | Inr cache_data \<Rightarrow>
                 \<lparr>returned = Inr (Some captured), cap_log = l,
                  cache_after = Some (Json_object (add_captures captured cache_data))\<rparr>)
          else \<lparr>returned = Inr (Some captured), cap_log = l, cache_after = cache_file E\<rparr>)"

text \<open>
  \<^verbatim>\<open>main\<close> of the capture tool once the credentials are there and the service is
  built (lines 218 and 219): it calls \<^verbatim>\<open>capture_email\<close> outside any \<^verbatim>\<open>try\<close>.
\<close>

definition capture_main :: "capture_env \<Rightarrow> string \<Rightarrow> bool \<Rightarrow> exit" where
  "capture_main E query save =
     (case returned (capture_email E query save) of Inl e \<Rightarrow> Uncaught e | Inr r \<Rightarrow> Exit 0)"


section \<open>Notions of the specification and concrete environments\<close>

text \<open>The messages handed to the provider for sending or for saving as a draft, in order.\<close>

fun delivered :: "effect list \<Rightarrow> msg_body list" where
  "delivered [] = []"
| "delivered (MessagesSend m # l) = m # delivered l"
| "delivered (DraftsCreate m # l) = m # delivered l"
| "delivered (c # l) = delivered l"

text \<open>The MIME trees given to the serialiser, in order, and the threads looked up.\<close>

fun built :: "effect list \<Rightarrow> mime list" where
  "built [] = []"
| "built (AsBytes message # l) = message # built l"
| "built (c # l) = built l"

fun lookups :: "effect list \<Rightarrow> string list" where
  "lookups [] = []"
| "lookups (ThreadsGet t # l) = t # lookups l"
| "lookups (c # l) = lookups l"

definition built_subjects :: "effect list \<Rightarrow> string list" where
  "built_subjects l = map hdr_subject (built l)"

text \<open>The identifier of the last message of a thread, as the provider's answer gives it.\<close>

definition last_id :: "string + string option list option \<Rightarrow> string option" where
  "last_id answer = (case answer of
       Inr (Some msgs) \<Rightarrow> (if msgs = [] then None else last msgs)
     | Inr None \<Rightarrow> None
     | Inl e \<Rightarrow> None)"

text \<open>The credentials of an account could be loaded.\<close>

definition loaded :: "env \<Rightarrow> string \<Rightarrow> bool" where
  "loaded E account = (case load_credentials E account of
       Inr (Some creds, ts) \<Rightarrow> True
     | Inr (None, ts) \<Rightarrow> False
     | Inl e \<Rightarrow> False)"

definition cal_loaded :: "env \<Rightarrow> string \<Rightarrow> bool" where
  "cal_loaded E account = (case cal_load_credentials E account of
       Inr (Some creds, ts, printed) \<Rightarrow> True
     | Inr (None, ts, printed) \<Rightarrow> False
     | Inl e \<Rightarrow> False)"

text \<open>The operation returned a result that reports success.\<close>

definition succeeded :: "string + result \<Rightarrow> bool" where
  "succeeded r = (case r of Inr x \<Rightarrow> success x | Inl e \<Rightarrow> False)"

text \<open>The title in the result that \<^verbatim>\<open>add_event\<close> returned, if it returned one.\<close>

definition title_of :: "string + event_result \<Rightarrow> string option" where
  "title_of r = (case r of Inr x \<Rightarrow> title x | Inl e \<Rightarrow> None)"

text \<open>The message of the exception with which the provider answers a call, if it raises.\<close>

definition error_of :: "string + 'a \<Rightarrow> string option" where
  "error_of r = (case r of Inl e \<Rightarrow> Some e | Inr x \<Rightarrow> None)"

fun raised :: "env \<Rightarrow> effect \<Rightarrow> string option" where
  "raised E GetProfile = error_of (getProfile E)"
| "raised E (ThreadsGet t) = error_of (threads_get E t)"
| "raised E (DraftsCreate m) = error_of (drafts_create E m)"
| "raised E (MessagesSend m) = error_of (messages_send E m)"
| "raised E (EventsInsert c b) = error_of (events_insert E c b)"
| "raised E (MessagesList q) = None"
| "raised E (MessagesGet i) = None"
| "raised E (Prompt q) = None"
| "raised E (AsBytes m) = None"

fun capture_raised :: "capture_env \<Rightarrow> effect \<Rightarrow> string option" where
  "capture_raised E (MessagesList q) = error_of (list_messages E q)"
| "capture_raised E (MessagesGet i) = error_of (get_message E i)"
| "capture_raised E c = None"

text \<open>The words of the specification: every newline becomes a line break marker, nothing else changes.\<close>

definition newlines_to_br :: "string \<Rightarrow> string" where
  "newlines_to_br s = concat (map (\<lambda>c. if c = CHR 0x0A then ''<br>'' else [c]) s)"

text \<open>
  The words of the specification for a reply subject: a leading \<^verbatim>\<open>Re: \<close> is stripped
  once, then one \<^verbatim>\<open>Re: \<close> is put in front.
\<close>

definition strip_re_prefix :: "string \<Rightarrow> string" where
  "strip_re_prefix s = (if take 4 s = ''Re: '' then drop 4 s else s)"

definition reply_subject_spec :: "string \<Rightarrow> string" where
  "reply_subject_spec s = ''Re: '' @ strip_re_prefix s"

text \<open>The location at which the token of an account is expected.\<close>

definition expected_token_path :: "env \<Rightarrow> string \<Rightarrow> string" where
  "expected_token_path E account =
     joinpath (home E @ ''/.nanobot/credentials/gmail'')
       (str_replace ''@'' ''_at_'' account @ ''.token'')"

definition alternative_token_path :: "env \<Rightarrow> string \<Rightarrow> string" where
  "alternative_token_path E account =
     joinpath (home E @ ''/.nanobot/credentials'') (account @ ''.json'')"

text \<open>
  A stand-in for the serialiser that keeps the fields of the tree readable.
\<close>

definition office_wire :: "mime \<Rightarrow> string" where
  "office_wire m = ''to='' @ hdr_to m @ ''; subject='' @ hdr_subject m
     @ ''; in-reply-to='' @ py_str (hdr_in_reply_to m)
     @ ''; references='' @ py_str (hdr_references m)
     @ ''; plain='' @ plain_part m @ ''; html='' @ html_part m"

text \<open>
  An operator's machine: a valid token for \<^verbatim>\<open>ops@example.com\<close>, a provider that answers
  every call, and an operator who types what \<open>typed\<close> says.
\<close>

definition ops_token :: string where
  "ops_token = ''/home/op/.nanobot/credentials/gmail/ops_at_example.com.token''"

definition office :: "string option \<Rightarrow> env" where
  "office typed = \<lparr>home = ''/home/op'', home_fails = None,
     token_store = (\<lambda>p. if p = ops_token
                          then Some (Pickled (Some \<lparr>expired = False, refresh_token = None\<rparr>))
                          else None),
     stat_fails = (\<lambda>p. None),
     refresh = (\<lambda>c. Inr c),
     build_fails = None,
     getProfile = Inr (Some ''ops@example.com''),
     threads_get = (\<lambda>t. Inr (Some [Some ''m1'', Some ''m2''])),
     drafts_create = (\<lambda>m. Inr \<lparr>resp_id = Some ''d1'', resp_threadId = threadId m\<rparr>),
     messages_send = (\<lambda>m. Inr \<lparr>resp_id = Some ''s1'', resp_threadId = threadId m\<rparr>),
     as_bytes = (\<lambda>m. Inr (office_wire m)),
     operator_input = typed,
     read_file = (\<lambda>p. Inl ''No such file or directory''),
     stdin_text = [],
     events_insert = (\<lambda>c b. Inr \<lparr>resp_event_id = Some ''e1'', resp_htmlLink = None\<rparr>),
     datetime_fields = (\<lambda>d s e. Inr (d @ ''T'' @ s @ '':00'', d @ ''T'' @ e @ '':00''))\<rparr>"

text \<open>The same machine with a provider that knows no thread and refuses to send or to save.\<close>

definition office_refused :: env where
  "office_refused = (office None)\<lparr>
     threads_get := (\<lambda>t. Inl ''HttpError 404''),
     drafts_create := (\<lambda>m. Inl ''HttpError 500''),
     messages_send := (\<lambda>m. Inl ''HttpError 403'')\<rparr>"

text \<open>A machine with no credential file at all.\<close>

definition bare_machine :: env where
  "bare_machine = (office None)\<lparr>token_store := (\<lambda>p. None)\<rparr>"

text \<open>A machine on which the directory of the tokens may not be searched.\<close>

definition locked_machine :: env where
  "locked_machine = (office None)\<lparr>stat_fails := (\<lambda>p. Some ''[Errno 13] Permission denied'')\<rparr>"

text \<open>
  One call of each mail operation on a machine: a note to Jean, a reply in thread
  \<^verbatim>\<open>t1\<close> with the same text, and the notification of a booking.
\<close>

definition friday_note :: string where
  "friday_note = ''Dear Jean,'' @ nl @ ''see you on Friday.''"

definition mail_run :: "env \<Rightarrow> bool \<Rightarrow> bool \<Rightarrow> run" where
  "mail_run E auto_confirm draft =
     send_email E ''ops@example.com'' ''jean@example.com'' ''Quotation'' friday_note None None
       auto_confirm None draft None"

definition reply_run :: "env \<Rightarrow> bool \<Rightarrow> bool \<Rightarrow> run" where
  "reply_run E auto_confirm draft =
     send_reply E ''ops@example.com'' ''t1'' ''jean@example.com'' ''Quotation'' friday_note
       None auto_confirm None draft"

definition notice_run :: "env \<Rightarrow> bool \<Rightarrow> bool \<Rightarrow> run" where
  "notice_run E auto_confirm draft =
     send_designer_notification E ''ops@example.com'' ''Acme'' ''Jane'' ''jane@acme.sg''
       ''2026-05-21'' ''09:00'' ''Conrad'' ''EVENT'' auto_confirm draft"

text \<open>The arguments \<^verbatim>\<open>--to a@b.c --subject S --body hi --reply-to t1\<close> and their variants.\<close>

definition reply_args :: "string option \<Rightarrow> bool \<Rightarrow> send_args" where
  "reply_args reply_subject as_json = \<lparr>arg_account = ''ops@example.com'', arg_to = ''a@b.c'',
     arg_subject = ''S'', arg_body = Some ''hi'', arg_body_file = None, arg_cc = None,
     arg_bcc = None, arg_from_address = None, arg_reply_to = Some ''t1'',
     arg_reply_subject = reply_subject, arg_draft = False, arg_yes = False,
     arg_json = as_json\<rparr>"

definition plain_args :: "bool \<Rightarrow> send_args" where
  "plain_args as_json = (reply_args None as_json)\<lparr>arg_reply_to := None\<rparr>"

text \<open>
  A provider for the capture tool: the listing of a query, one message per identifier
  (its snippet is the identifier, its body the given text), and a cache file.
\<close>

definition mailbox ::
  "string + message_ref list \<Rightarrow> string \<Rightarrow> cache_content option \<Rightarrow> capture_env" where
  "mailbox listing body_text cache = \<lparr>
     list_messages = (\<lambda>q. listing),
     get_message = (\<lambda>i. Inr \<lparr>msg_headers = [(''Subject'', ''Quotation'')],
                              msg_payload = Part ''text/plain'' (Some body_text) None,
                              msg_snippet = i\<rparr>),
     b64decode = (\<lambda>d. Inr d),
     now = (\<lambda>n. ''2026-05-21T09:00:0'' @ (if n = 0 then ''0'' else ''1'')),
     cache_file = cache\<rparr>"

definition two_in_four_seconds :: "message_ref list" where
  "two_in_four_seconds = [\<lparr>ref_id = Some ''18c5f2a3b4d5e6f7'', ref_threadId = Some ''t1''\<rparr>,
                          \<lparr>ref_id = Some ''18c5f2a3c0ffee00'', ref_threadId = Some ''t1''\<rparr>]"

definition two_threads :: "message_ref list" where
  "two_threads = [\<lparr>ref_id = Some ''18c5f2a3b4d5e6f7'', ref_threadId = Some ''t1''\<rparr>,
                  \<lparr>ref_id = Some ''18c5f2a4000000aa'', ref_threadId = Some ''t2''\<rparr>]"

text \<open>The mailbox of the two threads when the second message cannot be fetched.\<close>

definition mailbox_second_fails :: capture_env where
  "mailbox_second_fails = (mailbox (Inr two_threads) ''hello'' None)\<lparr>
     get_message := (\<lambda>i. if i = ''18c5f2a4000000aa'' then Inl ''HttpError 500''
                          else Inr \<lparr>msg_headers = [], msg_payload = Part ''text/plain'' None None,
                                    msg_snippet = i\<rparr>)\<rparr>"

definition long_text :: string where
  "long_text = replicate 6000 CHR ''x''"

definition captured_body_lengths :: "capture_run \<Rightarrow> nat list" where
  "captured_body_lengths r = (case returned r of
       Inr (Some captured) \<Rightarrow> map (\<lambda>email. length (em_body email)) captured
     | Inr None \<Rightarrow> []
     | Inl e \<Rightarrow> [])"

text \<open>A cache file left by an earlier run.\<close>

definition earlier_cache :: cache_content where
  "earlier_cache = Json_object [(''t0_17aa0000'', Other_value ''kept'')]"

text \<open>What a run of the capture tool returned and what it left in the cache, by message identifier.\<close>

definition captured_ids :: "capture_run \<Rightarrow> string list" where
  "captured_ids r = (case returned r of
       Inr (Some captured) \<Rightarrow> map em_message_id captured
     | Inr None \<Rightarrow> []
     | Inl e \<Rightarrow> [])"

definition cached_id :: "cache_value \<Rightarrow> string" where
  "cached_id v = (case v of Captured email \<Rightarrow> em_message_id email | Other_value x \<Rightarrow> [])"

definition cached_ids :: "capture_run \<Rightarrow> (string \<times> string) list" where
  "cached_ids r = (case cache_after r of
       Some (Json_object kvs) \<Rightarrow> map (\<lambda>(k, v). (k, cached_id v)) kvs
     | Some Not_json \<Rightarrow> []
     | Some (Json_other e) \<Rightarrow> []
     | None \<Rightarrow> [])"

text \<open>The records of a batch after position \<open>i\<close>.\<close>

definition later_keys :: "email_data list \<Rightarrow> nat \<Rightarrow> string list" where
  "later_keys captured i = map cache_key (drop (Suc i) captured)"


text \<open>
  Properties of a computation, each kept by sequencing: every call it made satisfies
  \<open>Q\<close>; a call that raised (\<open>R\<close> gives the message) is what the computation raises; once
  the operator has been asked, the outcome is the cancellation and nothing was delivered;
  and a computation that reports success has handed over exactly one message.
\<close>

definition is_prompt :: "effect \<Rightarrow> bool" where
  "is_prompt c = (case c of Prompt q \<Rightarrow> True | _ \<Rightarrow> False)"

definition is_delivery :: "effect \<Rightarrow> bool" where
  "is_delivery c = (case c of MessagesSend m \<Rightarrow> True | DraftsCreate m \<Rightarrow> True | _ \<Rightarrow> False)"

definition is_lookup :: "effect \<Rightarrow> bool" where
  "is_lookup c = (case c of ThreadsGet t \<Rightarrow> True | _ \<Rightarrow> False)"

definition every :: "(effect \<Rightarrow> bool) \<Rightarrow> 'a comp \<Rightarrow> bool" where
  "every Q m = list_all Q (snd m)"

definition handled :: "(effect \<Rightarrow> string option) \<Rightarrow> 'a comp \<Rightarrow> bool" where
  "handled R m =
     list_all (\<lambda>c. case R c of None \<Rightarrow> True | Some e \<Rightarrow> fst m = Inl e) (snd m)"

definition declined :: "result comp \<Rightarrow> bool" where
  "declined m = (list_ex is_prompt (snd m) \<longrightarrow>
                   fst m = Inr user_cancelled \<and> delivered (snd m) = [])"

definition delivers_once :: "result comp \<Rightarrow> bool" where
  "delivers_once m = (case fst m of
       Inr r \<Rightarrow> success r \<longrightarrow> length (delivered (snd m)) = 1
     | Inl e \<Rightarrow> True)"

definition looks_up_once :: "string \<Rightarrow> 'a comp \<Rightarrow> bool" where
  "looks_up_once t m =
     (lookups (snd m) = [t]
      \<or> lookups (snd m) = [] \<and> built (snd m) = [] \<and> delivered (snd m) = [])"


section \<open>Properties\<close>

lemma replace_scan_single:
  "replace_scan [c] new s = concat (map (\<lambda>x. if x = c then new else [x]) s)"
  by (induction s) simp_all

lemma str_replace_newline: "str_replace [CHR 0x0A] ''<br>'' s = newlines_to_br s"
  by (simp add: str_replace_def newlines_to_br_def replace_scan_single)

subsection \<open>Computations\<close>

lemma fst_ret [simp]: "fst (ret x) = Inr x"
  by (simp add: ret_def)

lemma snd_ret [simp]: "snd (ret x) = []"
  by (simp add: ret_def)

lemma fst_raise [simp]: "fst (raise e) = Inl e"
  by (simp add: raise_def)

lemma snd_raise [simp]: "snd (raise e) = []"
  by (simp add: raise_def)

lemma fst_call [simp]: "fst (call c r) = r"
  by (simp add: call_def)

lemma snd_call [simp]: "snd (call c r) = [c]"
  by (simp add: call_def)

lemma bnd_Inl: "fst m = Inl e \<Longrightarrow> bnd m f = (Inl e, snd m)"
  by (cases m) (simp add: bnd_def)

lemma bnd_Inr: "fst m = Inr x \<Longrightarrow> bnd m f = (fst (f x), snd m @ snd (f x))"
  by (cases m) (simp add: bnd_def split: prod.splits)

lemma log_handler [simp]: "log (except_handler ts m) = snd m"
  by (simp add: except_handler_def split: prod.splits sum.splits)

lemma res_handler:
  "res (except_handler ts m) = Inr (case fst m of Inl e \<Rightarrow> failure e | Inr r \<Rightarrow> r)"
  by (simp add: except_handler_def split: prod.splits sum.splits)

lemma log_event_handler [simp]: "ev_log (event_handler ts m) = snd m"
  by (simp add: event_handler_def split: prod.splits sum.splits)

lemma res_event_handler:
  "ev_res (event_handler ts m)
     = Inr (case fst m of Inl e \<Rightarrow> event_failure e | Inr r \<Rightarrow> r)"
  by (simp add: event_handler_def split: prod.splits sum.splits)

lemma snd_build [simp]: "snd (build_service E) = []"
  by (simp add: build_service_def split: option.splits)

lemma snd_get_sender: "snd (get_sender E a f) = (if truthy f then [] else [GetProfile])"
  by (cases "getProfile E") (simp_all add: get_sender_def bnd_Inl bnd_Inr)

lemma fst_input:
  "fst (input_line E q) =
     (case operator_input E of None \<Rightarrow> Inl ''EOF when reading a line'' | Some s \<Rightarrow> Inr s)"
  by (simp add: input_line_def)

lemma snd_input [simp]: "snd (input_line E q) = [Prompt q]"
  by (simp add: input_line_def)

lemma snd_last_message_id [simp]: "snd (last_message_id t) = []"
  by (simp add: last_message_id_def split: option.splits)

lemma snd_lookup_name [simp]: "snd (lookup_name scope name) = []"
  by (simp add: lookup_name_def split: option.splits)

lemma in_delivered:
  "m \<in> set (delivered l) \<longleftrightarrow> MessagesSend m \<in> set l \<or> DraftsCreate m \<in> set l"
  by (induction l rule: delivered.induct) auto

lemma delivered_append [simp]: "delivered (l @ l') = delivered l @ delivered l'"
  by (induction l rule: delivered.induct) auto

lemma delivered_none: "list_all (\<lambda>c. \<not> is_delivery c) l \<Longrightarrow> delivered l = []"
  by (induction l rule: delivered.induct) (auto simp: is_delivery_def)

lemma is_prompt_simps [simp]:
  "is_prompt (Prompt q)" "\<not> is_prompt GetProfile" "\<not> is_prompt (ThreadsGet t)"
  "\<not> is_prompt (DraftsCreate m)" "\<not> is_prompt (MessagesSend m)"
  "\<not> is_prompt (EventsInsert k b)" "\<not> is_prompt (MessagesList s)"
  "\<not> is_prompt (MessagesGet i)" "\<not> is_prompt (AsBytes tree)"
  by (simp_all add: is_prompt_def)

lemma is_delivery_simps [simp]:
  "\<not> is_delivery (Prompt q)" "\<not> is_delivery GetProfile" "\<not> is_delivery (ThreadsGet t)"
  "is_delivery (DraftsCreate m)" "is_delivery (MessagesSend m)"
  "\<not> is_delivery (EventsInsert k b)" "\<not> is_delivery (MessagesList s)"
  "\<not> is_delivery (MessagesGet i)" "\<not> is_delivery (AsBytes tree)"
  by (simp_all add: is_delivery_def)

lemma is_lookup_simps [simp]:
  "\<not> is_lookup (Prompt q)" "\<not> is_lookup GetProfile" "is_lookup (ThreadsGet t)"
  "\<not> is_lookup (DraftsCreate m)" "\<not> is_lookup (MessagesSend m)"
  "\<not> is_lookup (EventsInsert k b)" "\<not> is_lookup (MessagesList s)"
  "\<not> is_lookup (MessagesGet i)" "\<not> is_lookup (AsBytes tree)"
  by (simp_all add: is_lookup_def)

lemma in_built: "t \<in> set (built l) \<longleftrightarrow> AsBytes t \<in> set l"
  by (induction l rule: built.induct) auto

lemma built_append [simp]: "built (l @ l') = built l @ built l'"
  by (induction l rule: built.induct) auto

lemma lookups_append [simp]: "lookups (l @ l') = lookups l @ lookups l'"
  by (induction l rule: lookups.induct) auto

lemma lookups_none: "list_all (\<lambda>c. \<not> is_lookup c) l \<Longrightarrow> lookups l = []"
  by (induction l rule: lookups.induct) (auto simp: is_lookup_def)

lemma fst_last_message_id:
  "fst (last_message_id answer) = Inr i \<longleftrightarrow> last_id (Inr answer) = Some i"
  by (simp add: last_message_id_def last_id_def split: option.splits)

subsection \<open>Every effect of a computation\<close>

lemma every_ret [intro!]: "every Q (ret x)"
  by (simp add: every_def)

lemma every_raise [intro!]: "every Q (raise e)"
  by (simp add: every_def)

lemma every_silent [intro!]: "every Q (r, [])"
  by (simp add: every_def)

lemma every_call: "Q c \<Longrightarrow> every Q (call c r)"
  by (simp add: every_def)

lemma every_bnd:
  "every Q m \<Longrightarrow> (\<And>x. fst m = Inr x \<Longrightarrow> every Q (f x)) \<Longrightarrow> every Q (bnd m f)"
  by (cases "fst m") (simp_all add: every_def bnd_Inl bnd_Inr)

lemma every_if: "(b \<Longrightarrow> every Q x) \<Longrightarrow> (\<not> b \<Longrightarrow> every Q y) \<Longrightarrow> every Q (if b then x else y)"
  by simp

lemma every_build [intro!]: "every Q (build_service E)"
  by (simp add: every_def)

lemma every_get_sender: "Q GetProfile \<Longrightarrow> every Q (get_sender E a f)"
  by (simp add: every_def snd_get_sender)

lemma every_input: "Q (Prompt q) \<Longrightarrow> every Q (input_line E q)"
  by (simp add: every_def)

lemma every_last_message_id [intro!]: "every Q (last_message_id t)"
  by (simp add: every_def)

lemma every_lookup_name [intro!]: "every Q (lookup_name scope name)"
  by (simp add: every_def)

lemma everyD: "every Q m \<Longrightarrow> c \<in> set (snd m) \<Longrightarrow> Q c"
  by (simp add: every_def list_all_iff)

lemmas every_intros = every_bnd every_if every_call every_get_sender every_input

subsection \<open>Calls that raise\<close>

lemma handled_ret [intro!]: "handled R (ret x)"
  by (simp add: handled_def)

lemma handled_raise [intro!]: "handled R (raise e)"
  by (simp add: handled_def)

lemma handled_silent [intro!]: "handled R (r, [])"
  by (simp add: handled_def)

lemma handled_call: "R c = error_of r \<Longrightarrow> handled R (call c r)"
  by (cases r) (simp_all add: handled_def error_of_def)

lemma handled_provider:
  "handled (raised E) (call (ThreadsGet t) (threads_get E t))"
  "handled (raised E) (call (DraftsCreate m) (drafts_create E m))"
  "handled (raised E) (call (MessagesSend m) (messages_send E m))"
  "handled (raised E) (call (EventsInsert k b) (events_insert E k b))"
  "handled (raised E) (call (AsBytes tree) r)"
  by (simp_all add: handled_call) (simp add: handled_def)

lemma handled_bnd: "handled R m \<Longrightarrow> (\<And>x. handled R (f x)) \<Longrightarrow> handled R (bnd m f)"
proof (cases "fst m")
  case (Inl e)
  assume "handled R m"
  with Inl show ?thesis
    by (auto simp: bnd_Inl handled_def list_all_iff split: option.splits)
next
  case (Inr x)
  assume m: "handled R m" and f: "\<And>x. handled R (f x)"
  from m Inr have "list_all (\<lambda>c. R c = None) (snd m)"
    by (auto simp: handled_def list_all_iff split: option.splits)
  with f [of x] Inr show ?thesis
    by (auto simp: bnd_Inr handled_def list_all_iff split: option.splits)
qed

lemma handled_if:
  "(b \<Longrightarrow> handled R x) \<Longrightarrow> (\<not> b \<Longrightarrow> handled R y) \<Longrightarrow> handled R (if b then x else y)"
  by simp

lemma handled_build [intro!]: "handled R (build_service E)"
  by (simp add: handled_def)

lemma handled_get_sender [intro!]: "handled (raised E) (get_sender E a f)"
  unfolding get_sender_def
  by (intro handled_if handled_bnd handled_call handled_ret) simp

lemma handled_input [intro!]: "handled (raised E) (input_line E' q)"
  by (simp add: handled_def)

lemma handled_last_message_id [intro!]: "handled R (last_message_id t)"
  by (simp add: handled_def)

lemma handled_lookup_name [intro!]: "handled R (lookup_name scope name)"
  by (simp add: handled_def)

lemma handledD:
  "handled R m \<Longrightarrow> c \<in> set (snd m) \<Longrightarrow> R c = Some e \<Longrightarrow> fst m = Inl e"
  by (auto simp: handled_def list_all_iff split: option.splits)

lemmas handled_intros = handled_bnd handled_if handled_provider

subsection \<open>The confirmation gate\<close>

lemma declined_quiet: "every (\<lambda>c. \<not> is_prompt c) m \<Longrightarrow> declined m"
  by (auto simp: declined_def every_def list_all_iff list_ex_iff)

lemma declined_bnd:
  assumes "every (\<lambda>c. \<not> is_prompt c \<and> \<not> is_delivery c) m" and "\<And>x. declined (f x)"
  shows "declined (bnd m f)"
proof (cases "fst m")
  case (Inl e)
  with assms(1) show ?thesis
    by (auto simp: bnd_Inl declined_def every_def list_all_iff list_ex_iff)
next
  case (Inr x)
  from assms(1) have "delivered (snd m) = []"
    by (auto simp: every_def list_all_iff intro!: delivered_none)
  with assms(1) assms(2) [of x] Inr show ?thesis
    by (auto simp: bnd_Inr declined_def every_def list_all_iff list_ex_iff)
qed

lemma declined_gate:
  assumes "operator_input E = Some typed" and "\<not> affirmative (lower (strip typed))"
    and "every (\<lambda>c. \<not> is_prompt c) d"
  shows "declined (if \<not> auto_confirm
                   then bnd (input_line E q)
                          (\<lambda>line. if \<not> affirmative (lower (strip line)) then ret user_cancelled else d)
                   else d)"
proof (cases auto_confirm)
  case True
  with assms(3) show ?thesis by (simp add: declined_quiet)
next
  case False
  from assms(1) have "fst (input_line E q) = Inr typed"
    by (simp add: fst_input)
  with False assms(2) show ?thesis
    by (simp add: bnd_Inr declined_def)
qed

lemma declinedD:
  assumes "declined m" and "Prompt q \<in> set (snd m)"
  shows "fst m = Inr user_cancelled \<and> delivered (snd m) = []"
proof -
  from assms(2) have "list_ex is_prompt (snd m)"
    by (auto simp: list_ex_iff intro: bexI [of _ "Prompt q"])
  with assms(1) show ?thesis by (simp add: declined_def)
qed

subsection \<open>One message for a success\<close>

lemma delivers_once_bnd:
  assumes "every (\<lambda>c. \<not> is_delivery c) m" and "\<And>x. delivers_once (f x)"
  shows "delivers_once (bnd m f)"
proof (cases "fst m")
  case (Inl e)
  then show ?thesis
    by (simp add: bnd_Inl delivers_once_def)
next
  case (Inr x)
  from assms(1) have "delivered (snd m) = []"
    by (auto simp: every_def list_all_iff intro!: delivered_none)
  with assms(2) [of x] Inr show ?thesis
    by (cases "fst (f x)") (simp_all add: bnd_Inr delivers_once_def)
qed

lemma delivers_once_call:
  "delivers_once (bnd (call (DraftsCreate m) r) (\<lambda>x. ret (g x)))"
  "delivers_once (bnd (call (MessagesSend m) r) (\<lambda>x. ret (g x)))"
  by (cases r; simp add: bnd_Inl bnd_Inr delivers_once_def)+

lemma delivers_once_cancelled [intro!]: "delivers_once (ret user_cancelled)"
  by (simp add: delivers_once_def user_cancelled_def no_result_def)

lemma delivers_once_if:
  "(b \<Longrightarrow> delivers_once x) \<Longrightarrow> (\<not> b \<Longrightarrow> delivers_once y) \<Longrightarrow> delivers_once (if b then x else y)"
  by simp

lemma delivers_onceD:
  "delivers_once m \<Longrightarrow> fst m = Inr r \<Longrightarrow> success r \<Longrightarrow> length (delivered (snd m)) = 1"
  by (simp add: delivers_once_def)

subsection \<open>One lookup of the thread\<close>

lemma looks_up_once_bnd:
  assumes "every (\<lambda>c. \<not> is_lookup c \<and> \<not> is_delivery c \<and> (\<forall>t. c \<noteq> AsBytes t)) m"
    and "\<And>x. looks_up_once t (f x)"
  shows "looks_up_once t (bnd m f)"
proof -
  from assms(1) have "list_all (\<lambda>c. \<not> is_lookup c) (snd m)"
    and "list_all (\<lambda>c. \<not> is_delivery c) (snd m)"
    and "\<forall>c \<in> set (snd m). \<forall>t. c \<noteq> AsBytes t"
    by (simp_all add: every_def list_all_iff)
  then have "lookups (snd m) = []" and "delivered (snd m) = []"
    and "\<forall>t. t \<notin> set (built (snd m))"
    by (auto simp: lookups_none delivered_none in_built)
  then have quiet: "lookups (snd m) = []" "built (snd m) = []" "delivered (snd m) = []"
    by (cases "built (snd m)"; simp)+
  show ?thesis
  proof (cases "fst m")
    case (Inl e)
    with quiet show ?thesis
      by (simp add: bnd_Inl looks_up_once_def)
  next
    case (Inr x)
    with quiet assms(2) [of x] show ?thesis
      by (simp add: bnd_Inr looks_up_once_def)
  qed
qed

lemma looks_up_once_call:
  assumes "\<And>x. every (\<lambda>c. \<not> is_lookup c) (f x)"
  shows "looks_up_once t (bnd (call (ThreadsGet t) r) f)"
proof (cases r)
  case (Inl e)
  then show ?thesis
    by (simp add: bnd_Inl looks_up_once_def)
next
  case (Inr x)
  from assms [of x] have "lookups (snd (f x)) = []"
    by (simp add: every_def lookups_none)
  with Inr show ?thesis
    by (simp add: bnd_Inr looks_up_once_def)
qed

subsection \<open>The three mail operations\<close>

lemma send_email_try_handled:
  "handled (raised E)
     (send_email_try E account to subj body cc bcc auto_confirm from_address draft thread)"
  unfolding send_email_try_def Let_def
  by (intro handled_intros handled_build handled_get_sender handled_input handled_ret)

lemma send_reply_try_handled:
  "handled (raised E)
     (send_reply_try E account thread to subj body cc auto_confirm from_address draft)"
  unfolding send_reply_try_def Let_def
  by (intro handled_intros handled_build handled_get_sender handled_input handled_ret
        handled_last_message_id)

lemma notification_try_handled:
  "handled (raised E)
     (send_designer_notification_try E cl pn pe dt tm vn et auto_confirm draft)"
  unfolding send_designer_notification_try_def Let_def
  by (intro handled_intros handled_build handled_input handled_ret)

text \<open>
  What is built and what is handed over: the tree given to the serialiser has the stated
  parts, and the text handed to the provider is what the serialiser made of such a tree.
\<close>

lemma send_email_try_content:
  "every (\<lambda>c. (\<forall>t. c = AsBytes t \<longrightarrow>
                   plain_part t = body \<and> html_part t = newlines_to_br body)
             \<and> (\<forall>x. c = MessagesSend x \<or> c = DraftsCreate x \<longrightarrow>
                   (\<exists>t. as_bytes E t = Inr (raw x) \<and> plain_part t = body
                        \<and> html_part t = newlines_to_br body)))
     (send_email_try E account to subj body cc bcc auto_confirm from_address draft thread)"
  unfolding send_email_try_def Let_def
  by (intro every_intros every_build every_ret; fastforce simp: str_replace_newline)

lemma send_reply_try_content:
  "every (\<lambda>c. (\<forall>t. c = AsBytes t \<longrightarrow>
                   plain_part t = body \<and> html_part t = newlines_to_br body
                   \<and> hdr_subject t = ''Re: '' @ str_replace ''Re: '' [] subj
                   \<and> hdr_in_reply_to t = last_id (threads_get E thread)
                   \<and> hdr_references t = last_id (threads_get E thread)
                   \<and> last_id (threads_get E thread) \<noteq> None)
             \<and> (\<forall>x. c = MessagesSend x \<or> c = DraftsCreate x \<longrightarrow>
                   threadId x = Some thread
                   \<and> (\<exists>t. as_bytes E t = Inr (raw x) \<and> plain_part t = body
                        \<and> html_part t = newlines_to_br body
                        \<and> hdr_subject t = ''Re: '' @ str_replace ''Re: '' [] subj
                        \<and> hdr_in_reply_to t = last_id (threads_get E thread)
                        \<and> hdr_references t = last_id (threads_get E thread))))
     (send_reply_try E account thread to subj body cc auto_confirm from_address draft)"
  unfolding send_reply_try_def Let_def
  by (intro every_intros every_build every_ret every_last_message_id;
      fastforce simp: str_replace_newline fst_last_message_id)

lemma notification_try_content:
  "every (\<lambda>c. (\<forall>t. c = AsBytes t \<longrightarrow>
                   plain_part t = snd (build_designer_email cl pn pe dt tm vn et)
                   \<and> html_part t = newlines_to_br (plain_part t))
             \<and> (\<forall>x. c = MessagesSend x \<or> c = DraftsCreate x \<longrightarrow>
                   (\<exists>t. as_bytes E t = Inr (raw x)
                        \<and> plain_part t = snd (build_designer_email cl pn pe dt tm vn et)
                        \<and> html_part t = newlines_to_br (plain_part t))))
     (send_designer_notification_try E cl pn pe dt tm vn et auto_confirm draft)"
  unfolding send_designer_notification_try_def Let_def
  by (intro every_intros every_build every_ret; fastforce simp: str_replace_newline)

lemma send_email_try_delivers_once:
  "delivers_once
     (send_email_try E account to subj body cc bcc auto_confirm from_address draft thread)"
  unfolding send_email_try_def Let_def
  by (intro delivers_once_call delivers_once_bnd delivers_once_if delivers_once_cancelled
        every_intros every_build; simp)

lemma send_reply_try_delivers_once:
  "delivers_once
     (send_reply_try E account thread to subj body cc auto_confirm from_address draft)"
  unfolding send_reply_try_def Let_def
  by (intro delivers_once_call delivers_once_bnd delivers_once_if delivers_once_cancelled
        every_intros every_build every_last_message_id; simp)

lemma notification_try_delivers_once:
  "delivers_once (send_designer_notification_try E cl pn pe dt tm vn et auto_confirm draft)"
  unfolding send_designer_notification_try_def Let_def
  by (intro delivers_once_call delivers_once_bnd delivers_once_if delivers_once_cancelled
        every_intros every_build; simp)

lemma send_reply_try_looks_up_once:
  "looks_up_once thread
     (send_reply_try E account thread to subj body cc auto_confirm from_address draft)"
  unfolding send_reply_try_def
  apply (rule looks_up_once_bnd)
   apply (rule every_build)
  apply (rule looks_up_once_bnd)
   apply (rule every_get_sender)
   apply simp
  apply (rule looks_up_once_call)
  unfolding Let_def
  apply (intro every_intros every_last_message_id every_ret; simp)
  done

lemma send_email_try_declined:
  assumes "operator_input E = Some typed" and "\<not> affirmative (lower (strip typed))"
  shows "declined (send_email_try E account to subj body cc bcc auto_confirm from_address draft thread)"
  unfolding send_email_try_def Let_def
  by (intro declined_bnd declined_gate [OF assms] every_intros every_build every_ret; simp)

lemma send_reply_try_declined:
  assumes "operator_input E = Some typed" and "\<not> affirmative (lower (strip typed))"
  shows "declined (send_reply_try E account thread to subj body cc auto_confirm from_address draft)"
  unfolding send_reply_try_def Let_def
  by (intro declined_bnd declined_gate [OF assms] every_intros every_build every_ret
        every_last_message_id; simp)

lemma notification_try_declined:
  assumes "operator_input E = Some typed" and "\<not> affirmative (lower (strip typed))"
  shows "declined (send_designer_notification_try E cl pn pe dt tm vn et auto_confirm draft)"
  unfolding send_designer_notification_try_def Let_def
  by (intro declined_bnd declined_gate [OF assms] every_intros every_build every_ret; simp)

lemma every_deliveredD:
  assumes "every (\<lambda>c. A c \<and> (\<forall>x. c = MessagesSend x \<or> c = DraftsCreate x \<longrightarrow> P x)) m"
    and "x \<in> set (delivered (snd m))"
  shows "P x"
  using assms by (auto simp: in_delivered dest: everyD)

lemma every_builtD:
  assumes "every (\<lambda>c. (\<forall>t. c = AsBytes t \<longrightarrow> P t) \<and> B c) m"
    and "t \<in> set (built (snd m))"
  shows "P t"
  using assms by (auto simp: in_built dest: everyD)

text \<open>What a run logs and returns, by the outcome of loading the credentials.\<close>

lemma send_email_log:
  "log (send_email E account to subj body cc bcc auto_confirm from_address draft thread) =
     (if loaded E account
      then snd (send_email_try E account to subj body cc bcc auto_confirm from_address draft
                  thread)
      else [])"
  by (simp add: send_email_def loaded_def split: prod.splits option.splits sum.splits)

lemma send_email_res:
  "loaded E account \<Longrightarrow>
   res (send_email E account to subj body cc bcc auto_confirm from_address draft thread) =
     Inr (case fst (send_email_try E account to subj body cc bcc auto_confirm from_address
                      draft thread) of Inl e \<Rightarrow> failure e | Inr r \<Rightarrow> r)"
  by (simp add: send_email_def loaded_def res_handler split: prod.splits option.splits sum.splits)

lemma send_reply_log:
  "log (send_reply E account thread to subj body cc auto_confirm from_address draft) =
     (if loaded E account
      then snd (send_reply_try E account thread to subj body cc auto_confirm from_address draft)
      else [])"
  by (simp add: send_reply_def loaded_def split: prod.splits option.splits sum.splits)

lemma send_reply_res:
  "loaded E account \<Longrightarrow>
   res (send_reply E account thread to subj body cc auto_confirm from_address draft) =
     Inr (case fst (send_reply_try E account thread to subj body cc auto_confirm from_address
                      draft) of Inl e \<Rightarrow> failure e | Inr r \<Rightarrow> r)"
  by (simp add: send_reply_def loaded_def res_handler split: prod.splits option.splits sum.splits)

lemma notification_log:
  "log (send_designer_notification E account cl pn pe dt tm vn et auto_confirm draft) =
     (if loaded E account
      then snd (send_designer_notification_try E cl pn pe dt tm vn et auto_confirm draft)
      else [])"
  by (simp add: send_designer_notification_def loaded_def
           split: prod.splits option.splits sum.splits)

lemma notification_res:
  "loaded E account \<Longrightarrow>
   res (send_designer_notification E account cl pn pe dt tm vn et auto_confirm draft) =
     Inr (case fst (send_designer_notification_try E cl pn pe dt tm vn et auto_confirm draft)
          of Inl e \<Rightarrow> failure e | Inr r \<Rightarrow> r)"
  by (simp add: send_designer_notification_def loaded_def res_handler
           split: prod.splits option.splits sum.splits)

lemma not_loaded_fails:
  assumes "\<not> loaded E account"
  shows "\<not> succeeded (res (send_email E account to subj body cc bcc auto_confirm from_address
                             draft thread))"
    and "\<not> succeeded (res (send_reply E account thread' to subj body cc auto_confirm
                             from_address draft))"
    and "\<not> succeeded (res (send_designer_notification E account cl pn pe dt tm vn et
                             auto_confirm draft))"
  using assms
  by (auto simp: send_email_def send_reply_def send_designer_notification_def loaded_def
        succeeded_def failure_def no_result_def split: prod.splits option.splits sum.splits)

lemma add_event_log:
  "ev_log (add_event E account company pn et dt st en loc eid descr stat) =
     (if cal_loaded E account
      then snd (add_event_try E account company pn et dt st en loc eid descr stat)
      else [])"
  by (simp add: add_event_def cal_loaded_def split: prod.splits option.splits sum.splits)

lemma add_event_res:
  "cal_loaded E account \<Longrightarrow>
   ev_res (add_event E account company pn et dt st en loc eid descr stat) =
     Inr (case fst (add_event_try E account company pn et dt st en loc eid descr stat)
          of Inl e \<Rightarrow> event_failure e | Inr r \<Rightarrow> r)"
  by (simp add: add_event_def cal_loaded_def res_event_handler
           split: prod.splits option.splits sum.splits)

subsection \<open>The HTML rendering\<close>

text \<open>
  C7. In each of the three operations that build a message, every tree given to the
  serialiser carries the body as its plain part (for the designer notification, the body
  built by \<^verbatim>\<open>build_designer_email\<close>) and, as its HTML part, that text with every
  newline replaced by \<^verbatim>\<open><br>\<close> and every other character kept; every message handed
  to the provider is the serialiser's text for such a tree; and an operation that reports
  success has handed over exactly one message.
\<close>

theorem html_part_is_body_with_line_breaks:
  "(\<forall>t \<in> set (built (log (send_email E account to subj body cc bcc auto_confirm
                              from_address draft thread))).
      plain_part t = body \<and> html_part t = newlines_to_br body)
   \<and> (\<forall>m \<in> set (delivered (log (send_email E account to subj body cc bcc auto_confirm
                                    from_address draft thread))).
        \<exists>t. as_bytes E t = Inr (raw m) \<and> plain_part t = body
             \<and> html_part t = newlines_to_br body)
   \<and> (succeeded (res (send_email E account to subj body cc bcc auto_confirm from_address
                         draft thread)) \<longrightarrow>
        length (delivered (log (send_email E account to subj body cc bcc auto_confirm
                                  from_address draft thread))) = 1)
   \<and> (\<forall>t \<in> set (built (log (send_reply E account thread' to subj body cc auto_confirm
                                from_address draft))).
        plain_part t = body \<and> html_part t = newlines_to_br body)
   \<and> (\<forall>m \<in> set (delivered (log (send_reply E account thread' to subj body cc auto_confirm
                                    from_address draft))).
        \<exists>t. as_bytes E t = Inr (raw m) \<and> plain_part t = body
             \<and> html_part t = newlines_to_br body)
   \<and> (succeeded (res (send_reply E account thread' to subj body cc auto_confirm from_address
                         draft)) \<longrightarrow>
        length (delivered (log (send_reply E account thread' to subj body cc auto_confirm
                                  from_address draft))) = 1)
   \<and> (\<forall>t \<in> set (built (log (send_designer_notification E account cl pn pe dt tm vn et
                                auto_confirm draft))).
        plain_part t = snd (build_designer_email cl pn pe dt tm vn et)
        \<and> html_part t = newlines_to_br (plain_part t))
   \<and> (\<forall>m \<in> set (delivered (log (send_designer_notification E account cl pn pe dt tm vn et
                                    auto_confirm draft))).
        \<exists>t. as_bytes E t = Inr (raw m)
             \<and> plain_part t = snd (build_designer_email cl pn pe dt tm vn et)
             \<and> html_part t = newlines_to_br (plain_part t))
   \<and> (succeeded (res (send_designer_notification E account cl pn pe dt tm vn et
                         auto_confirm draft)) \<longrightarrow>
        length (delivered (log (send_designer_notification E account cl pn pe dt tm vn et
                                  auto_confirm draft))) = 1)"
proof -
  note email = send_email_try_content [of body E account to subj cc bcc auto_confirm
      from_address draft thread]
  note reply = send_reply_try_content [of body subj E thread' account to cc auto_confirm
      from_address draft]
  note notification = notification_try_content [of cl pn pe dt tm vn et E auto_confirm draft]
  have e1: "plain_part t = body \<and> html_part t = newlines_to_br body"
    if "t \<in> set (built (log (send_email E account to subj body cc bcc auto_confirm
                                from_address draft thread)))" for t
    using that every_builtD [OF email, of t]
    by (simp add: send_email_log split: if_splits)
  have e2: "\<exists>t. as_bytes E t = Inr (raw m) \<and> plain_part t = body
                 \<and> html_part t = newlines_to_br body"
    if "m \<in> set (delivered (log (send_email E account to subj body cc bcc auto_confirm
                                    from_address draft thread)))" for m
    using that every_deliveredD [OF email, of m]
    by (simp add: send_email_log split: if_splits)
  have e3: "length (delivered (log (send_email E account to subj body cc bcc auto_confirm
                                      from_address draft thread))) = 1"
    if "succeeded (res (send_email E account to subj body cc bcc auto_confirm from_address
                          draft thread))"
  proof -
    from that not_loaded_fails(1) have l: "loaded E account"
      by blast
    with that show ?thesis
      using delivers_onceD [OF send_email_try_delivers_once, of E account to subj body cc bcc
          auto_confirm from_address draft thread]
      by (simp add: send_email_res send_email_log succeeded_def failure_def no_result_def
            split: sum.splits)
  qed
  have r1: "plain_part t = body \<and> html_part t = newlines_to_br body"
    if "t \<in> set (built (log (send_reply E account thread' to subj body cc auto_confirm
                                from_address draft)))" for t
    using that every_builtD [OF reply, of t]
    by (simp add: send_reply_log split: if_splits)
  have r2: "\<exists>t. as_bytes E t = Inr (raw m) \<and> plain_part t = body
                 \<and> html_part t = newlines_to_br body"
    if "m \<in> set (delivered (log (send_reply E account thread' to subj body cc auto_confirm
                                    from_address draft)))" for m
  proof -
    from that have "m \<in> set (delivered (snd (send_reply_try E account thread' to subj body cc
                                                auto_confirm from_address draft)))"
      by (simp add: send_reply_log split: if_splits)
    from every_deliveredD [OF reply this] show ?thesis
      by blast
  qed
  have r3: "length (delivered (log (send_reply E account thread' to subj body cc auto_confirm
                                      from_address draft))) = 1"
    if "succeeded (res (send_reply E account thread' to subj body cc auto_confirm from_address
                          draft))"
  proof -
    from that not_loaded_fails(2) have l: "loaded E account"
      by blast
    with that show ?thesis
      using delivers_onceD [OF send_reply_try_delivers_once, of E account thread' to subj body
          cc auto_confirm from_address draft]
      by (simp add: send_reply_res send_reply_log succeeded_def failure_def no_result_def
            split: sum.splits)
  qed
  have n1: "plain_part t = snd (build_designer_email cl pn pe dt tm vn et)
            \<and> html_part t = newlines_to_br (plain_part t)"
    if "t \<in> set (built (log (send_designer_notification E account cl pn pe dt tm vn et
                                auto_confirm draft)))" for t
    using that every_builtD [OF notification, of t]
    by (simp add: notification_log split: if_splits)
  have n2: "\<exists>t. as_bytes E t = Inr (raw m)
                 \<and> plain_part t = snd (build_designer_email cl pn pe dt tm vn et)
                 \<and> html_part t = newlines_to_br (plain_part t)"
    if "m \<in> set (delivered (log (send_designer_notification E account cl pn pe dt tm vn et
                                    auto_confirm draft)))" for m
    using that every_deliveredD [OF notification, of m]
    by (simp add: notification_log split: if_splits)
  have n3: "length (delivered (log (send_designer_notification E account cl pn pe dt tm vn et
                                      auto_confirm draft))) = 1"
    if "succeeded (res (send_designer_notification E account cl pn pe dt tm vn et
                          auto_confirm draft))"
  proof -
    from that not_loaded_fails(3) have l: "loaded E account"
      by blast
    with that show ?thesis
      using delivers_onceD [OF notification_try_delivers_once, of E cl pn pe dt tm vn et
          auto_confirm draft]
      by (simp add: notification_res notification_log succeeded_def failure_def no_result_def
            split: sum.splits)
  qed
  from e1 e2 e3 r1 r2 r3 n1 n2 n3 show ?thesis
    by blast
qed

subsection \<open>The confirmation gate\<close>

text \<open>
  C6. Whenever one of the three operations has asked the operator (the prompt is among
  its calls) and the line typed, stripped and lowercased, is none of \<^verbatim>\<open>yes\<close>,
  \<^verbatim>\<open>y\<close>, \<^verbatim>\<open>send\<close>, \<^verbatim>\<open>draft\<close>, the operation returns the cancellation result
  and no message was sent or saved as a draft.
\<close>

theorem declined_gate_cancels_and_sends_nothing:
  assumes "operator_input E = Some typed" and "\<not> affirmative (lower (strip typed))"
  shows
   "(Prompt q \<in> set (log (send_email E account to subj body cc bcc auto_confirm from_address
                            draft thread)) \<longrightarrow>
       res (send_email E account to subj body cc bcc auto_confirm from_address draft thread)
         = Inr user_cancelled
       \<and> delivered (log (send_email E account to subj body cc bcc auto_confirm from_address
                            draft thread)) = [])
    \<and> (Prompt q \<in> set (log (send_reply E account thread' to subj body cc auto_confirm
                              from_address draft)) \<longrightarrow>
       res (send_reply E account thread' to subj body cc auto_confirm from_address draft)
         = Inr user_cancelled
       \<and> delivered (log (send_reply E account thread' to subj body cc auto_confirm
                            from_address draft)) = [])
    \<and> (Prompt q \<in> set (log (send_designer_notification E account cl pn pe dt tm vn et
                              auto_confirm draft)) \<longrightarrow>
       res (send_designer_notification E account cl pn pe dt tm vn et auto_confirm draft)
         = Inr user_cancelled
       \<and> delivered (log (send_designer_notification E account cl pn pe dt tm vn et
                            auto_confirm draft)) = [])"
  using declinedD [OF send_email_try_declined [OF assms], of q]
    declinedD [OF send_reply_try_declined [OF assms], of q]
    declinedD [OF notification_try_declined [OF assms], of q]
  by (simp add: send_email_log send_email_res send_reply_log send_reply_res
        notification_log notification_res split: if_splits)

subsection \<open>Exceptions of the provider\<close>

lemma capture_loop_handled:
  "handled (capture_raised E) (capture_loop E query n refs)"
proof (induction refs arbitrary: n)
  case Nil
  show ?case by (simp add: handled_ret)
next
  case (Cons ref refs)
  have body: "handled (capture_raised E)
      (bnd (call (MessagesGet i) (get_message E i)) (\<lambda>msg.
         bnd (decode_body (b64decode E) (msg_payload msg), []) (\<lambda>body.
           bnd (capture_loop E query (Suc n) refs) (\<lambda>captured. ret (g msg body # captured)))))"
    for i g
    by (intro handled_bnd handled_call handled_silent handled_ret Cons.IH) simp
  show ?case
    by (cases "ref_id ref"; cases "ref_threadId ref")
       (simp_all add: handled_raise Let_def body)
qed

lemma capture_email_raises:
  assumes "c \<in> set (cap_log (capture_email E query save))" and "capture_raised E c = Some e"
  shows "returned (capture_email E query save) = Inl e"
proof -
  let ?m = "bnd (call (MessagesList query) (list_messages E query)) (\<lambda>messages.
             if messages = [] then ret None
             else bnd (capture_loop E query 0 messages) (\<lambda>captured. ret (Some captured)))"
  have h: "handled (capture_raised E) ?m"
    by (intro handled_bnd handled_if handled_call handled_ret capture_loop_handled) simp
  have l: "cap_log (capture_email E query save) = snd ?m"
    by (simp add: capture_email_def split: prod.splits sum.splits option.splits)
  from handledD [OF h] assms l have "fst ?m = Inl e"
    by simp
  then obtain l' where "?m = (Inl e, l')"
    by (cases ?m) simp
  then show ?thesis
    by (simp add: capture_email_def)
qed

text \<open>
  C3, as amended. In the three mail operations, a provider call that raised makes the
  operation return the failure result whose error is the message of that exception; the
  operation itself returns. The capture tool has no such handler: a listing or a fetch
  that raised makes \<^verbatim>\<open>capture_email\<close> raise that exception, and \<^verbatim>\<open>main\<close> ends
  with it.
\<close>

theorem provider_exception_becomes_failure:
  "(c \<in> set (log (send_email E account to subj body cc bcc auto_confirm from_address draft
                     thread)) \<and> raised E c = Some e \<longrightarrow>
      res (send_email E account to subj body cc bcc auto_confirm from_address draft thread)
        = Inr (failure e))
   \<and> (c \<in> set (log (send_reply E account thread' to subj body cc auto_confirm from_address
                       draft)) \<and> raised E c = Some e \<longrightarrow>
      res (send_reply E account thread' to subj body cc auto_confirm from_address draft)
        = Inr (failure e))
   \<and> (c \<in> set (log (send_designer_notification E account cl pn pe dt tm vn et auto_confirm
                       draft)) \<and> raised E c = Some e \<longrightarrow>
      res (send_designer_notification E account cl pn pe dt tm vn et auto_confirm draft)
        = Inr (failure e))
   \<and> (c \<in> set (cap_log (capture_email M query save)) \<and> capture_raised M c = Some e \<longrightarrow>
      returned (capture_email M query save) = Inl e
      \<and> capture_main M query save = Uncaught e)"
  using handledD [OF send_email_try_handled, of c _ _ _ _ _ _ _ _ _ _ _ e]
    handledD [OF send_reply_try_handled, of c _ _ _ _ _ _ _ _ _ _ e]
    handledD [OF notification_try_handled, of c _ _ _ _ _ _ _ _ _ _ e]
    capture_email_raises [of c M query save e]
  by (simp add: send_email_log send_email_res send_reply_log send_reply_res
        notification_log notification_res capture_main_def split: if_splits)

subsection \<open>Runs on the operator's machine\<close>

lemma office_token_name:
  "str_replace ''@'' ''_at_'' ''ops@example.com'' = ''ops_at_example.com''"
  by (simp add: str_replace_def)

theorem html_part_is_body_with_line_breaks_witness:
  "succeeded (res (mail_run (office None) True False))
   \<and> map html_part (built (log (mail_run (office None) True False)))
       = [''Dear Jean,<br>see you on Friday.'']
   \<and> length (delivered (log (mail_run (office None) True False))) = 1
   \<and> succeeded (res (reply_run (office None) True False))
   \<and> map html_part (built (log (reply_run (office None) True False)))
       = [''Dear Jean,<br>see you on Friday.'']
   \<and> length (delivered (log (reply_run (office None) True False))) = 1
   \<and> succeeded (res (notice_run (office None) True False))
   \<and> map html_part (built (log (notice_run (office None) True False)))
       = [''Hi Ting Ting,<br><br>We have a new instant print booking confirmed.<br><br>''
          @ ''Please liaise directly with the client for the overlay design:<br><br>''
          @ ''Client: Jane<br>Email: jane@acme.sg<br>Event Date: 2026-05-21<br>''
          @ ''Start Time: 09:00<br>Venue: Conrad<br>Event Type: EVENT<br><br>Thank you!'']
   \<and> length (delivered (log (notice_run (office None) True False))) = 1"
proof -
  note rendering = html_part_is_body_with_line_breaks [where E = "office None"
      and account = "''ops@example.com''" and to = "''jean@example.com''"
      and subj = "''Quotation''" and body = friday_note and cc = None and bcc = None
      and auto_confirm = True and from_address = None and draft = False and thread = None
      and thread' = "''t1''" and cl = "''Acme''" and pn = "''Jane''" and pe = "''jane@acme.sg''"
      and dt = "''2026-05-21''" and tm = "''09:00''" and vn = "''Conrad''" and et = "''EVENT''",
      folded mail_run_def reply_run_def notice_run_def]
  have ok: "succeeded (res (mail_run (office None) True False))"
    "succeeded (res (reply_run (office None) True False))"
    "succeeded (res (notice_run (office None) True False))"
    by code_simp+
  have "length (built (log (mail_run (office None) True False))) = 1"
    and "length (built (log (reply_run (office None) True False))) = 1"
    and "length (built (log (notice_run (office None) True False))) = 1"
    by code_simp+
  then obtain t1 t2 t3 where trees: "built (log (mail_run (office None) True False)) = [t1]"
    "built (log (reply_run (office None) True False)) = [t2]"
    "built (log (notice_run (office None) True False)) = [t3]"
    by (auto simp: length_Suc_conv)
  have br: "newlines_to_br friday_note = ''Dear Jean,<br>see you on Friday.''"
    by code_simp
  have booking: "newlines_to_br (snd (build_designer_email ''Acme'' ''Jane'' ''jane@acme.sg''
                    ''2026-05-21'' ''09:00'' ''Conrad'' ''EVENT''))
       = ''Hi Ting Ting,<br><br>We have a new instant print booking confirmed.<br><br>''
          @ ''Please liaise directly with the client for the overlay design:<br><br>''
          @ ''Client: Jane<br>Email: jane@acme.sg<br>Event Date: 2026-05-21<br>''
          @ ''Start Time: 09:00<br>Venue: Conrad<br>Event Type: EVENT<br><br>Thank you!''"
    by code_simp
  from rendering trees br booking
  have "html_part t1 = ''Dear Jean,<br>see you on Friday.''"
    and "html_part t2 = ''Dear Jean,<br>see you on Friday.''"
    and "html_part t3
       = ''Hi Ting Ting,<br><br>We have a new instant print booking confirmed.<br><br>''
          @ ''Please liaise directly with the client for the overlay design:<br><br>''
          @ ''Client: Jane<br>Email: jane@acme.sg<br>Event Date: 2026-05-21<br>''
          @ ''Start Time: 09:00<br>Venue: Conrad<br>Event Type: EVENT<br><br>Thank you!''"
    by simp_all
  moreover from rendering ok
  have "length (delivered (log (mail_run (office None) True False))) = 1"
    and "length (delivered (log (reply_run (office None) True False))) = 1"
    and "length (delivered (log (notice_run (office None) True False))) = 1"
    by blast+
  ultimately show ?thesis
    using ok trees by simp
qed

theorem declined_gate_cancels_and_sends_nothing_witness:
  "operator_input (office (Some (CHR 0xA0 # ''No ''))) = Some (CHR 0xA0 # ''No '')
   \<and> \<not> affirmative (lower (strip (CHR 0xA0 # ''No '')))
   \<and> Prompt ''Send this email? (yes/no): ''
        \<in> set (log (mail_run (office (Some (CHR 0xA0 # ''No ''))) False False))
   \<and> res (mail_run (office (Some (CHR 0xA0 # ''No ''))) False False) = Inr user_cancelled
   \<and> delivered (log (mail_run (office (Some (CHR 0xA0 # ''No ''))) False False)) = []
   \<and> Prompt ''Save as draft this reply? (yes/no): ''
        \<in> set (log (reply_run (office (Some (CHR 0xA0 # ''No ''))) False True))
   \<and> res (reply_run (office (Some (CHR 0xA0 # ''No ''))) False True) = Inr user_cancelled
   \<and> delivered (log (reply_run (office (Some (CHR 0xA0 # ''No ''))) False True)) = []
   \<and> Prompt ''Send this notification? (yes/no): ''
        \<in> set (log (notice_run (office (Some (CHR 0xA0 # ''No ''))) False False))
   \<and> res (notice_run (office (Some (CHR 0xA0 # ''No ''))) False False) = Inr user_cancelled
   \<and> delivered (log (notice_run (office (Some (CHR 0xA0 # ''No ''))) False False)) = []"
proof -
  let ?E = "office (Some (CHR 0xA0 # ''No ''))"
  have typed: "operator_input ?E = Some (CHR 0xA0 # ''No '')"
    by (simp add: office_def)
  have no: "\<not> affirmative (lower (strip (CHR 0xA0 # ''No '')))"
    by code_simp
  have asked: "Prompt ''Send this email? (yes/no): '' \<in> set (log (mail_run ?E False False))"
    "Prompt ''Save as draft this reply? (yes/no): '' \<in> set (log (reply_run ?E False True))"
    "Prompt ''Send this notification? (yes/no): '' \<in> set (log (notice_run ?E False False))"
    by code_simp+
  note gate = declined_gate_cancels_and_sends_nothing [OF typed no]
  from asked(1) gate [where q = "''Send this email? (yes/no): ''"]
  have "res (mail_run ?E False False) = Inr user_cancelled
        \<and> delivered (log (mail_run ?E False False)) = []"
    unfolding mail_run_def by blast
  moreover from asked(2) gate [where q = "''Save as draft this reply? (yes/no): ''"]
  have "res (reply_run ?E False True) = Inr user_cancelled
        \<and> delivered (log (reply_run ?E False True)) = []"
    unfolding reply_run_def by blast
  moreover from asked(3) gate [where q = "''Send this notification? (yes/no): ''"]
  have "res (notice_run ?E False False) = Inr user_cancelled
        \<and> delivered (log (notice_run ?E False False)) = []"
    unfolding notice_run_def by blast
  ultimately show ?thesis
    using typed no asked by simp
qed

text \<open>
  A line that is affirmative once the next-line character at its start and the no-break
  space at its end are stripped; and the small letters of two capitals above U+007F.
\<close>

lemma yes_with_no_break_space_sends:
  "affirmative (lower (strip (CHR 0x85 # ''Yes'' @ [CHR 0xA0])))
   \<and> succeeded (res (mail_run (office (Some (CHR 0x85 # ''Yes'' @ [CHR 0xA0]))) False False))
   \<and> length (delivered (log (mail_run (office (Some (CHR 0x85 # ''Yes'' @ [CHR 0xA0])))
                                 False False))) = 1"
  by code_simp

lemma lower_above_ascii:
  "lower [CHR 0xC9, CHR 0xD7, CHR 0xDE, CHR 0xDF] = [CHR 0xE9, CHR 0xD7, CHR 0xFE, CHR 0xDF]"
  by code_simp

theorem provider_exception_becomes_failure_witness:
  "last (log (mail_run office_refused True False))
     \<in> set (log (mail_run office_refused True False))
   \<and> raised office_refused (last (log (mail_run office_refused True False)))
       = Some ''HttpError 403''
   \<and> res (mail_run office_refused True False) = Inr (failure ''HttpError 403'')
   \<and> ThreadsGet ''t1'' \<in> set (log (reply_run office_refused True False))
   \<and> raised office_refused (ThreadsGet ''t1'') = Some ''HttpError 404''
   \<and> res (reply_run office_refused True False) = Inr (failure ''HttpError 404'')
   \<and> last (log (notice_run office_refused True True))
        \<in> set (log (notice_run office_refused True True))
   \<and> raised office_refused (last (log (notice_run office_refused True True)))
       = Some ''HttpError 500''
   \<and> res (notice_run office_refused True True) = Inr (failure ''HttpError 500'')
   \<and> MessagesGet ''18c5f2a4000000aa''
        \<in> set (cap_log (capture_email mailbox_second_fails ''from:jean'' False))
   \<and> capture_raised mailbox_second_fails (MessagesGet ''18c5f2a4000000aa'')
       = Some ''HttpError 500''
   \<and> returned (capture_email mailbox_second_fails ''from:jean'' False) = Inl ''HttpError 500''
   \<and> capture_main mailbox_second_fails ''from:jean'' False = Uncaught ''HttpError 500''"
proof -
  have sent: "last (log (mail_run office_refused True False))
                \<in> set (log (mail_run office_refused True False))"
    "raised office_refused (last (log (mail_run office_refused True False)))
       = Some ''HttpError 403''"
    by code_simp+
  have looked: "ThreadsGet ''t1'' \<in> set (log (reply_run office_refused True False))"
    "raised office_refused (ThreadsGet ''t1'') = Some ''HttpError 404''"
    by code_simp+
  have saved: "last (log (notice_run office_refused True True))
                 \<in> set (log (notice_run office_refused True True))"
    "raised office_refused (last (log (notice_run office_refused True True)))
       = Some ''HttpError 500''"
    by code_simp+
  have fetched: "MessagesGet ''18c5f2a4000000aa''
        \<in> set (cap_log (capture_email mailbox_second_fails ''from:jean'' False))"
    "capture_raised mailbox_second_fails (MessagesGet ''18c5f2a4000000aa'')
       = Some ''HttpError 500''"
    by code_simp+
  from sent [unfolded mail_run_def]
    provider_exception_becomes_failure [where E = office_refused
      and c = "last (log (mail_run office_refused True False))" and e = "''HttpError 403''"
      and account = "''ops@example.com''" and to = "''jean@example.com''"
      and subj = "''Quotation''" and body = friday_note and cc = None and bcc = None
      and auto_confirm = True and from_address = None and draft = False and thread = None,
      unfolded mail_run_def]
  have a: "res (mail_run office_refused True False) = Inr (failure ''HttpError 403'')"
    unfolding mail_run_def by blast
  from looked [unfolded reply_run_def]
    provider_exception_becomes_failure [where E = office_refused
      and c = "ThreadsGet ''t1''" and e = "''HttpError 404''"
      and account = "''ops@example.com''" and thread' = "''t1''" and to = "''jean@example.com''"
      and subj = "''Quotation''" and body = friday_note and cc = None
      and auto_confirm = True and from_address = None and draft = False]
  have b: "res (reply_run office_refused True False) = Inr (failure ''HttpError 404'')"
    unfolding reply_run_def by blast
  from saved [unfolded notice_run_def]
    provider_exception_becomes_failure [where E = office_refused
      and c = "last (log (notice_run office_refused True True))" and e = "''HttpError 500''"
      and account = "''ops@example.com''" and cl = "''Acme''" and pn = "''Jane''"
      and pe = "''jane@acme.sg''" and dt = "''2026-05-21''" and tm = "''09:00''"
      and vn = "''Conrad''" and et = "''EVENT''" and auto_confirm = True and draft = True,
      unfolded notice_run_def]
  have c: "res (notice_run office_refused True True) = Inr (failure ''HttpError 500'')"
    unfolding notice_run_def by blast
  from fetched
    provider_exception_becomes_failure [where M = mailbox_second_fails
      and c = "MessagesGet ''18c5f2a4000000aa''" and e = "''HttpError 500''"
      and query = "''from:jean''" and save = False]
  have d: "returned (capture_email mailbox_second_fails ''from:jean'' False)
             = Inl ''HttpError 500''
           \<and> capture_main mailbox_second_fails ''from:jean'' False = Uncaught ''HttpError 500''"
    by blast
  from sent looked saved fetched a b c d show ?thesis
    by simp
qed

text \<open>
  C3, the claim as stated fails for the capture tool: when the listing call raises, the
  exception leaves \<^verbatim>\<open>capture_email\<close> and \<^verbatim>\<open>main\<close>; no failure result is made.
\<close>

theorem capture_exception_is_uncaught:
  "returned (capture_email (mailbox (Inl ''HttpError 500'') [] None) ''from:jean'' False)
     = Inl ''HttpError 500''
   \<and> capture_main (mailbox (Inl ''HttpError 500'') [] None) ''from:jean'' False
     = Uncaught ''HttpError 500''"
  by (simp add: capture_main_def capture_email_def mailbox_def bnd_def call_def)

subsection \<open>The subject of a reply\<close>

lemma replace_scan_absent: "\<not> occurs old s \<Longrightarrow> replace_scan old new s = s"
  by (induction s) simp_all

lemma replace_scan_leading:
  assumes "take (length old) s = old" and "old \<noteq> []"
    and "\<not> occurs old (drop (length old) s)"
  shows "replace_scan old new s = new @ drop (length old) s"
proof (cases s)
  case Nil
  with assms show ?thesis by simp
next
  case (Cons c cs)
  with assms show ?thesis
    by (simp add: replace_scan_absent)
qed

lemma reply_subject_agrees:
  assumes "\<not> occurs ''Re: '' (strip_re_prefix s)"
  shows "''Re: '' @ str_replace ''Re: '' [] s = reply_subject_spec s"
proof (cases "take 4 s = ''Re: ''")
  case True
  have four: "length ''Re: '' = 4"
    by simp
  from True assms have "\<not> occurs ''Re: '' (drop 4 s)"
    by (simp add: strip_re_prefix_def)
  with True have "replace_scan ''Re: '' [] s = [] @ drop 4 s"
    using replace_scan_leading [of "''Re: ''" s "[]", unfolded four] by blast
  with True show ?thesis
    by (simp add: str_replace_def reply_subject_spec_def strip_re_prefix_def)
next
  case False
  with assms have "\<not> occurs ''Re: '' s"
    by (simp add: strip_re_prefix_def)
  then have "replace_scan ''Re: '' [] s = s"
    by (rule replace_scan_absent)
  with False show ?thesis
    by (simp add: str_replace_def reply_subject_spec_def strip_re_prefix_def)
qed

lemma send_reply_built:
  assumes "t \<in> set (built (log (send_reply E account thread' to subj body cc auto_confirm
                                    from_address draft)))"
  shows "hdr_subject t = ''Re: '' @ str_replace ''Re: '' [] subj
         \<and> hdr_in_reply_to t = last_id (threads_get E thread')
         \<and> hdr_references t = last_id (threads_get E thread')
         \<and> last_id (threads_get E thread') \<noteq> None"
proof -
  from assms have "t \<in> set (built (snd (send_reply_try E account thread' to subj body cc
                                            auto_confirm from_address draft)))"
    by (simp add: send_reply_log split: if_splits)
  from every_builtD [OF send_reply_try_content this] show ?thesis
    by simp
qed

lemma send_reply_delivered:
  assumes "m \<in> set (delivered (log (send_reply E account thread' to subj body cc auto_confirm
                                        from_address draft)))"
  shows "threadId m = Some thread'
         \<and> (\<exists>t. as_bytes E t = Inr (raw m)
                \<and> hdr_subject t = ''Re: '' @ str_replace ''Re: '' [] subj
                \<and> hdr_in_reply_to t = last_id (threads_get E thread')
                \<and> hdr_references t = last_id (threads_get E thread'))"
proof -
  from assms have "m \<in> set (delivered (snd (send_reply_try E account thread' to subj body cc
                                                auto_confirm from_address draft)))"
    by (simp add: send_reply_log split: if_splits)
  from every_deliveredD [OF send_reply_try_content this] show ?thesis
    by blast
qed

lemma send_reply_lookups:
  "lookups (log (send_reply E account thread' to subj body cc auto_confirm from_address draft))
     = [thread']
   \<or> lookups (log (send_reply E account thread' to subj body cc auto_confirm from_address
                      draft)) = []
     \<and> built (log (send_reply E account thread' to subj body cc auto_confirm from_address
                      draft)) = []
     \<and> delivered (log (send_reply E account thread' to subj body cc auto_confirm from_address
                          draft)) = []"
  using send_reply_try_looks_up_once [of thread' E account to subj body cc auto_confirm
      from_address draft]
  by (simp add: send_reply_log looks_up_once_def)

text \<open>
  C2, the claim as stated fails: for the subject \<^verbatim>\<open>Fwd: Re: Quotation\<close> the reply goes
  out as \<^verbatim>\<open>Re: Fwd: Quotation\<close>; stripping a leading \<^verbatim>\<open>Re: \<close> once and putting
  one in front would give \<^verbatim>\<open>Re: Fwd: Re: Quotation\<close>.
\<close>

theorem reply_subject_loses_inner_marker:
  "built_subjects (log (send_reply (office None) ''ops@example.com'' ''t1''
       ''jean@example.com'' ''Fwd: Re: Quotation'' ''ok'' None True None False))
     = [''Re: Fwd: Quotation'']
   \<and> map raw (delivered (log (send_reply (office None) ''ops@example.com'' ''t1''
       ''jean@example.com'' ''Fwd: Re: Quotation'' ''ok'' None True None False)))
     = [''to=jean@example.com; subject=Re: Fwd: Quotation; in-reply-to=m2; references=m2; ''
        @ ''plain=ok; html=ok'']
   \<and> reply_subject_spec ''Fwd: Re: Quotation'' = ''Re: Fwd: Re: Quotation''"
  by code_simp

text \<open>
  C2, as amended. The subject of every reply that is built, and of every reply handed
  to the provider, is \<^verbatim>\<open>Re: \<close> followed by the given subject with every occurrence of
  \<^verbatim>\<open>Re: \<close> removed, wherever it stands (a scan from the left); when the subject holds
  no \<^verbatim>\<open>Re: \<close> other than one at its very start, this is the subject with that prefix
  stripped once and put back.
\<close>

theorem reply_subject_removes_every_marker:
  "(\<forall>t \<in> set (built (log (send_reply E account thread' to subj body cc auto_confirm
                              from_address draft))).
      hdr_subject t = ''Re: '' @ str_replace ''Re: '' [] subj
      \<and> (\<not> occurs ''Re: '' (strip_re_prefix subj) \<longrightarrow>
           hdr_subject t = reply_subject_spec subj))
   \<and> (\<forall>m \<in> set (delivered (log (send_reply E account thread' to subj body cc auto_confirm
                                    from_address draft))).
        \<exists>t. as_bytes E t = Inr (raw m)
             \<and> hdr_subject t = ''Re: '' @ str_replace ''Re: '' [] subj
             \<and> (\<not> occurs ''Re: '' (strip_re_prefix subj) \<longrightarrow>
                  hdr_subject t = reply_subject_spec subj))"
proof -
  have made: "hdr_subject t = ''Re: '' @ str_replace ''Re: '' [] subj
      \<and> (\<not> occurs ''Re: '' (strip_re_prefix subj) \<longrightarrow>
           hdr_subject t = reply_subject_spec subj)"
    if "t \<in> set (built (log (send_reply E account thread' to subj body cc auto_confirm
                                  from_address draft)))" for t
    using send_reply_built [OF that] reply_subject_agrees [of subj] by simp
  have sent: "\<exists>t. as_bytes E t = Inr (raw m)
             \<and> hdr_subject t = ''Re: '' @ str_replace ''Re: '' [] subj
             \<and> (\<not> occurs ''Re: '' (strip_re_prefix subj) \<longrightarrow>
                  hdr_subject t = reply_subject_spec subj)"
    if "m \<in> set (delivered (log (send_reply E account thread' to subj body cc auto_confirm
                                      from_address draft)))" for m
  proof -
    from send_reply_delivered [OF that] obtain t
      where "as_bytes E t = Inr (raw m)"
        and "hdr_subject t = ''Re: '' @ str_replace ''Re: '' [] subj"
      by blast
    then show ?thesis
      using reply_subject_agrees [of subj] by auto
  qed
  from made sent show ?thesis
    by blast
qed

theorem reply_subject_removes_every_marker_witness:
  "built_subjects (log (send_reply (office None) ''ops@example.com'' ''t1''
      ''jean@example.com'' ''Re: Quotation'' ''ok'' None True None False))
     = [''Re: Quotation'']
   \<and> length (delivered (log (send_reply (office None) ''ops@example.com'' ''t1''
      ''jean@example.com'' ''Re: Quotation'' ''ok'' None True None False))) = 1
   \<and> \<not> occurs ''Re: '' (strip_re_prefix ''Re: Quotation'')
   \<and> reply_subject_spec ''Re: Quotation'' = ''Re: Quotation''"
proof -
  have "length (built (log (send_reply (office None) ''ops@example.com'' ''t1''
      ''jean@example.com'' ''Re: Quotation'' ''ok'' None True None False))) = 1"
    by code_simp
  then obtain t where made: "built (log (send_reply (office None) ''ops@example.com''
      ''t1'' ''jean@example.com'' ''Re: Quotation'' ''ok'' None True None False)) = [t]"
    by (auto simp: length_Suc_conv)
  have sent: "length (delivered (log (send_reply (office None) ''ops@example.com'' ''t1''
      ''jean@example.com'' ''Re: Quotation'' ''ok'' None True None False))) = 1"
    by code_simp
  have once: "\<not> occurs ''Re: '' (strip_re_prefix ''Re: Quotation'')"
    by code_simp
  have same: "reply_subject_spec ''Re: Quotation'' = ''Re: Quotation''"
    by code_simp
  from made have "t \<in> set (built (log (send_reply (office None) ''ops@example.com''
      ''t1'' ''jean@example.com'' ''Re: Quotation'' ''ok'' None True None False)))"
    by simp
  from bspec [OF conjunct1 [OF reply_subject_removes_every_marker] this] once
  have "hdr_subject t = reply_subject_spec ''Re: Quotation''"
    by blast
  with made sent once same show ?thesis
    by (simp add: built_subjects_def)
qed

subsection \<open>A reply without its subject\<close>

lemma main_refuses:
  assumes "truthy (arg_reply_to a)" and "\<not> truthy (arg_reply_subject a)"
  shows "calls (main E a) = []
     \<and> (status (main E a) = Exit 1
          \<and> last (out (main E a)) = Text ''Error: --reply-subject required when using --reply-to''
        \<or> truthy (arg_body_file a) \<and> error_of (read_file E (py_str (arg_body_file a))) \<noteq> None)"
  using assms
  by (cases "read_file E (py_str (arg_body_file a))") (simp_all add: main_def error_of_def)

lemma main_replies:
  assumes "truthy (arg_reply_to a)" and "truthy (arg_reply_subject a)"
  shows "calls (main E a) = []
     \<or> (\<exists>body. calls (main E a) =
           log (send_reply E (arg_account a) (py_str (arg_reply_to a)) (arg_to a)
                  (py_str (arg_reply_subject a)) body (arg_cc a) (arg_yes a)
                  (arg_from_address a) (arg_draft a)))"
  using assms
  by (cases "read_file E (py_str (arg_body_file a))")
     (auto simp: main_def Let_def split: sum.splits)

text \<open>
  C5, the claim as stated fails: a reply requested without \<^verbatim>\<open>--reply-subject\<close> is
  refused with a usage error and exit status 1; the provider is never called, so no
  subject is retrieved and no message is built.
\<close>

theorem reply_without_subject_is_refused:
  "status (main (office None) (reply_args None False)) = Exit 1
   \<and> calls (main (office None) (reply_args None False)) = []
   \<and> out (main (office None) (reply_args None False))
       = [Text ''Error: --reply-subject required when using --reply-to'']"
  by code_simp

text \<open>
  C5, as amended. When a reply is requested (\<^verbatim>\<open>--reply-to\<close>) without the subject
  (\<^verbatim>\<open>--reply-subject\<close>), and the body could be read, \<^verbatim>\<open>main\<close> prints the usage error
  and exits with status 1 without any call to the provider. When the subject is supplied:
  every reply that is built has its subject computed from the supplied one, and its
  \<^verbatim>\<open>In-Reply-To\<close> and \<^verbatim>\<open>References\<close> are the identifier of the last message of the
  referenced thread, as the provider gave it; every message handed to the provider is
  the serialiser's text for such a tree and carries the thread; and the thread was looked
  up exactly once, unless the run ended before the lookup, and then no message was built
  or handed over.
\<close>

theorem reply_subject_comes_from_the_caller:
  assumes "truthy (arg_reply_to a)"
  shows "(\<not> truthy (arg_reply_subject a)
          \<and> (truthy (arg_body_file a) \<longrightarrow>
               error_of (read_file E (py_str (arg_body_file a))) = None) \<longrightarrow>
            status (main E a) = Exit 1 \<and> calls (main E a) = []
            \<and> last (out (main E a))
                = Text ''Error: --reply-subject required when using --reply-to'')
       \<and> (truthy (arg_reply_subject a) \<longrightarrow>
            (\<forall>t \<in> set (built (calls (main E a))).
               hdr_subject t
                 = ''Re: '' @ str_replace ''Re: '' [] (py_str (arg_reply_subject a))
               \<and> hdr_in_reply_to t = last_id (threads_get E (py_str (arg_reply_to a)))
               \<and> hdr_references t = last_id (threads_get E (py_str (arg_reply_to a)))
               \<and> last_id (threads_get E (py_str (arg_reply_to a))) \<noteq> None)
            \<and> (\<forall>m \<in> set (delivered (calls (main E a))).
                 threadId m = Some (py_str (arg_reply_to a))
                 \<and> (\<exists>t. as_bytes E t = Inr (raw m)
                      \<and> hdr_subject t
                          = ''Re: '' @ str_replace ''Re: '' [] (py_str (arg_reply_subject a))
                      \<and> hdr_in_reply_to t = last_id (threads_get E (py_str (arg_reply_to a)))
                      \<and> hdr_references t = last_id (threads_get E (py_str (arg_reply_to a)))))
            \<and> (lookups (calls (main E a)) = [py_str (arg_reply_to a)]
               \<or> lookups (calls (main E a)) = [] \<and> built (calls (main E a)) = []
                 \<and> delivered (calls (main E a)) = []))"
proof -
  have refused: "status (main E a) = Exit 1 \<and> calls (main E a) = []
            \<and> last (out (main E a))
                = Text ''Error: --reply-subject required when using --reply-to''"
    if "\<not> truthy (arg_reply_subject a)"
      and "truthy (arg_body_file a) \<longrightarrow>
               error_of (read_file E (py_str (arg_body_file a))) = None"
    using main_refuses [OF assms that(1), of E] that(2) by auto
  have replied: "(\<forall>t \<in> set (built (calls (main E a))).
               hdr_subject t
                 = ''Re: '' @ str_replace ''Re: '' [] (py_str (arg_reply_subject a))
               \<and> hdr_in_reply_to t = last_id (threads_get E (py_str (arg_reply_to a)))
               \<and> hdr_references t = last_id (threads_get E (py_str (arg_reply_to a)))
               \<and> last_id (threads_get E (py_str (arg_reply_to a))) \<noteq> None)
            \<and> (\<forall>m \<in> set (delivered (calls (main E a))).
                 threadId m = Some (py_str (arg_reply_to a))
                 \<and> (\<exists>t. as_bytes E t = Inr (raw m)
                      \<and> hdr_subject t
                          = ''Re: '' @ str_replace ''Re: '' [] (py_str (arg_reply_subject a))
                      \<and> hdr_in_reply_to t = last_id (threads_get E (py_str (arg_reply_to a)))
                      \<and> hdr_references t = last_id (threads_get E (py_str (arg_reply_to a)))))
            \<and> (lookups (calls (main E a)) = [py_str (arg_reply_to a)]
               \<or> lookups (calls (main E a)) = [] \<and> built (calls (main E a)) = []
                 \<and> delivered (calls (main E a)) = [])"
    if given: "truthy (arg_reply_subject a)"
  proof (cases "calls (main E a) = []")
    case True
    then show ?thesis by simp
  next
    case False
    with main_replies [OF assms given, of E]
    obtain body where c: "calls (main E a) =
           log (send_reply E (arg_account a) (py_str (arg_reply_to a)) (arg_to a)
                  (py_str (arg_reply_subject a)) body (arg_cc a) (arg_yes a)
                  (arg_from_address a) (arg_draft a))"
      by auto
    let ?reply = "send_reply E (arg_account a) (py_str (arg_reply_to a)) (arg_to a)
                  (py_str (arg_reply_subject a)) body (arg_cc a) (arg_yes a)
                  (arg_from_address a) (arg_draft a)"
    have made: "\<forall>t \<in> set (built (log ?reply)).
               hdr_subject t
                 = ''Re: '' @ str_replace ''Re: '' [] (py_str (arg_reply_subject a))
               \<and> hdr_in_reply_to t = last_id (threads_get E (py_str (arg_reply_to a)))
               \<and> hdr_references t = last_id (threads_get E (py_str (arg_reply_to a)))
               \<and> last_id (threads_get E (py_str (arg_reply_to a))) \<noteq> None"
      by (intro ballI send_reply_built)
    have sent: "\<forall>m \<in> set (delivered (log ?reply)).
                 threadId m = Some (py_str (arg_reply_to a))
                 \<and> (\<exists>t. as_bytes E t = Inr (raw m)
                      \<and> hdr_subject t
                          = ''Re: '' @ str_replace ''Re: '' [] (py_str (arg_reply_subject a))
                      \<and> hdr_in_reply_to t = last_id (threads_get E (py_str (arg_reply_to a)))
                      \<and> hdr_references t = last_id (threads_get E (py_str (arg_reply_to a))))"
      by (intro ballI send_reply_delivered)
    from made sent send_reply_lookups [of E "arg_account a" "py_str (arg_reply_to a)"]
    show ?thesis
      unfolding c by (intro conjI)
  qed
  from refused replied show ?thesis by blast
qed

theorem reply_subject_comes_from_the_caller_witness:
  "truthy (arg_reply_to (reply_args None False))
   \<and> \<not> truthy (arg_reply_subject (reply_args None False))
   \<and> status (main (office None) (reply_args None False)) = Exit 1
   \<and> calls (main (office None) (reply_args None False)) = []
   \<and> truthy (arg_reply_subject (reply_args (Some ''Quotation'') False))
   \<and> built_subjects (calls (main (office (Some ''yes'')) (reply_args (Some ''Quotation'') False)))
       = [''Re: Quotation'']
   \<and> map hdr_in_reply_to
        (built (calls (main (office (Some ''yes'')) (reply_args (Some ''Quotation'') False))))
       = [Some ''m2'']
   \<and> map hdr_references
        (built (calls (main (office (Some ''yes'')) (reply_args (Some ''Quotation'') False))))
       = [Some ''m2'']
   \<and> map threadId
        (delivered (calls (main (office (Some ''yes'')) (reply_args (Some ''Quotation'') False))))
       = [Some ''t1'']
   \<and> lookups (calls (main (office (Some ''yes'')) (reply_args (Some ''Quotation'') False)))
       = [''t1'']"
proof -
  let ?refused = "main (office None) (reply_args None False)"
  let ?replied = "main (office (Some ''yes'')) (reply_args (Some ''Quotation'') False)"
  have asked: "truthy (arg_reply_to (reply_args None False))"
    "truthy (arg_reply_to (reply_args (Some ''Quotation'') False))"
    by code_simp+
  have missing: "\<not> truthy (arg_reply_subject (reply_args None False))"
    "\<not> truthy (arg_body_file (reply_args None False))"
    by code_simp+
  have given: "truthy (arg_reply_subject (reply_args (Some ''Quotation'') False))"
    by code_simp
  from reply_subject_comes_from_the_caller [OF asked(1), of "office None"] missing
  have no: "status ?refused = Exit 1 \<and> calls ?refused = []"
    by blast
  have "length (built (calls ?replied)) = 1" and "length (delivered (calls ?replied)) = 1"
    by code_simp+
  then obtain t m where made: "built (calls ?replied) = [t]"
    and sent: "delivered (calls ?replied) = [m]"
    by (auto simp: length_Suc_conv)
  have vals: "py_str (arg_reply_subject (reply_args (Some ''Quotation'') False)) = ''Quotation''"
    "py_str (arg_reply_to (reply_args (Some ''Quotation'') False)) = ''t1''"
    "str_replace ''Re: '' [] ''Quotation'' = ''Quotation''"
    "last_id (threads_get (office (Some ''yes'')) ''t1'') = Some ''m2''"
    by code_simp+
  from reply_subject_comes_from_the_caller [OF asked(2), of "office (Some ''yes'')"] given
    made sent vals
  have "hdr_subject t = ''Re: Quotation''" and "hdr_in_reply_to t = Some ''m2''"
    and "hdr_references t = Some ''m2''" and "threadId m = Some ''t1''"
    and "lookups (calls ?replied) = [''t1'']"
    by simp_all
  with asked missing given no made sent show ?thesis
    by (simp add: built_subjects_def)
qed

subsection \<open>Missing credentials\<close>

text \<open>
  C4, the claim as stated fails: with no credential file, the error of \<^verbatim>\<open>send_email\<close>
  names the account and the error of \<^verbatim>\<open>add_event\<close> names nothing; the path at which
  the token was expected occurs in neither.
\<close>

theorem missing_credentials_error_names_no_path:
  "res (send_email bare_machine ''ops@example.com'' ''jean@example.com'' ''Quotation''
          ''Dear Jean'' None None True None False None)
     = Inr (failure ''No credentials found for ops@example.com. Run OAuth setup first.'')
   \<and> ev_res (add_event bare_machine ''ops@example.com'' ''Acme'' ''Jane'' ''EVENT''
               ''2026-05-21'' ''09:00'' ''20:30'' ''Conrad Singapore'' ''abc123'' None ''TBC'')
     = Inr (event_failure ''No credentials found'')
   \<and> expected_token_path bare_machine ''ops@example.com''
     = ''/home/op/.nanobot/credentials/gmail/ops_at_example.com.token''
   \<and> \<not> occurs ''/home/op/.nanobot/credentials/gmail/ops_at_example.com.token''
          ''No credentials found for ops@example.com. Run OAuth setup first.''
   \<and> \<not> occurs ''/home/op/.nanobot/credentials/gmail/ops_at_example.com.token''
          ''No credentials found''"
  by code_simp

text \<open>
  C4, as amended. For every account whose credential file is absent (for the mail tools:
  the token file and the alternative \<^verbatim>\<open>.json\<close> file; for the calendar tool: the token
  file), and for which \<^verbatim>\<open>Path.home()\<close> and the tests of existence return, loading
  the credentials gives none without raising, and each operation returns a failure result without calling the
  provider; the error names the account (the mail tools) or nothing (the calendar tool),
  not the path.
\<close>

theorem missing_credentials_give_failure:
  "(home_fails E = None
    \<and> stat_fails E (expected_token_path E account) = None
    \<and> token_store E (expected_token_path E account) = None
    \<and> stat_fails E (alternative_token_path E account) = None
    \<and> token_store E (alternative_token_path E account) = None \<longrightarrow>
      load_credentials E account = Inr (None, token_store E)
      \<and> send_email E account to subj body cc bcc auto_confirm from_address draft thread
          = \<lparr>res = Inr (failure (''No credentials found for '' @ account
                                   @ ''. Run OAuth setup first.'')),
             log = [], tokens = token_store E\<rparr>
      \<and> send_reply E account thread' to subj body cc auto_confirm from_address draft
          = \<lparr>res = Inr (failure (''No credentials found for '' @ account)),
             log = [], tokens = token_store E\<rparr>
      \<and> send_designer_notification E account cl pn pe dt tm vn et auto_confirm draft
          = \<lparr>res = Inr (failure (''No credentials found for '' @ account
                                   @ ''. Run OAuth setup first.'')),
             log = [], tokens = token_store E\<rparr>)
   \<and> (home_fails E = None
      \<and> stat_fails E (expected_token_path E account) = None
      \<and> token_store E (expected_token_path E account) = None \<longrightarrow>
      (\<exists>printed. cal_load_credentials E account = Inr (None, token_store E, printed))
      \<and> ev_res (add_event E account company pn et dt st en loc eid descr stat)
          = Inr (event_failure ''No credentials found'')
      \<and> ev_log (add_event E account company pn et dt st en loc eid descr stat) = []
      \<and> ev_tokens (add_event E account company pn et dt st en loc eid descr stat)
          = token_store E)"
proof -
  have mail: "load_credentials E account = Inr (None, token_store E)"
    if "home_fails E = None"
      and "stat_fails E (expected_token_path E account) = None"
      and "token_store E (expected_token_path E account) = None"
      and "stat_fails E (alternative_token_path E account) = None"
      and "token_store E (alternative_token_path E account) = None"
    using that
    by (simp add: load_credentials_def get_credentials_path_def path_home_def path_exists_def
          seq_def expected_token_path_def alternative_token_path_def Let_def)
  have cal: "\<exists>printed. cal_load_credentials E account = Inr (None, token_store E, printed)"
    if "home_fails E = None"
      and "stat_fails E (expected_token_path E account) = None"
      and "token_store E (expected_token_path E account) = None"
    using that
    by (simp add: cal_load_credentials_def cal_get_credentials_path_def path_home_def
          path_exists_def seq_def expected_token_path_def Let_def)
  from mail show ?thesis
    using cal
    by (auto simp: send_email_def send_reply_def send_designer_notification_def add_event_def)
qed

theorem missing_credentials_give_failure_witness:
  "home_fails bare_machine = None
   \<and> stat_fails bare_machine (expected_token_path bare_machine ''ops@example.com'') = None
   \<and> token_store bare_machine (expected_token_path bare_machine ''ops@example.com'') = None
   \<and> stat_fails bare_machine (alternative_token_path bare_machine ''ops@example.com'') = None
   \<and> token_store bare_machine (alternative_token_path bare_machine ''ops@example.com'') = None
   \<and> res (mail_run bare_machine True False)
       = Inr (failure ''No credentials found for ops@example.com. Run OAuth setup first.'')
   \<and> log (mail_run bare_machine True False) = []
   \<and> res (reply_run bare_machine True False)
       = Inr (failure ''No credentials found for ops@example.com'')
   \<and> res (notice_run bare_machine True False)
       = Inr (failure ''No credentials found for ops@example.com. Run OAuth setup first.'')
   \<and> ev_res (add_event bare_machine ''ops@example.com'' ''Acme'' ''Jane'' ''EVENT''
            ''2026-05-21'' ''09:00'' ''20:30'' ''Conrad Singapore'' ''abc123'' None ''TBC'')
       = Inr (event_failure ''No credentials found'')"
proof -
  have a: "home_fails bare_machine = None"
    "stat_fails bare_machine (expected_token_path bare_machine ''ops@example.com'') = None"
    "token_store bare_machine (expected_token_path bare_machine ''ops@example.com'') = None"
    "stat_fails bare_machine (alternative_token_path bare_machine ''ops@example.com'') = None"
    "token_store bare_machine (alternative_token_path bare_machine ''ops@example.com'') = None"
    by (simp_all add: bare_machine_def office_def)
  from missing_credentials_give_failure [of bare_machine "''ops@example.com''"] a
  show ?thesis
    by (simp add: mail_run_def reply_run_def notice_run_def)
qed

text \<open>
  What the calendar tool prints when the token is missing: the second line is meant to
  name the expected path, but the variable it prints is \<^verbatim>\<open>None\<close> there.
\<close>

lemma calendar_prints_no_path:
  "ev_printed (add_event bare_machine ''ops@example.com'' ''Acme'' ''Jane'' ''EVENT''
                 ''2026-05-21'' ''09:00'' ''20:30'' ''Conrad Singapore'' ''abc123'' None ''TBC'')
     = [''Error: No credentials found for ops@example.com'', ''Expected: None'']"
  by (simp add: add_event_def cal_load_credentials_def cal_get_credentials_path_def
        path_home_def path_exists_def seq_def bare_machine_def office_def py_str_def Let_def)

text \<open>
  A test of existence that raises is not caught: the exception leaves
  \<^verbatim>\<open>load_credentials\<close>, the operation and \<^verbatim>\<open>main\<close>. So does the error of
  \<^verbatim>\<open>Path.home()\<close>.
\<close>

lemma home_directory_is_not_guarded:
  assumes "home_fails E = Some e"
  shows "load_credentials E account = Inl e" and "cal_load_credentials E account = Inl e"
  using assms
  by (simp_all add: load_credentials_def get_credentials_path_def cal_load_credentials_def
        cal_get_credentials_path_def path_home_def seq_def)

lemma existence_test_is_not_guarded:
  assumes "home_fails E = None"
    and "stat_fails E (expected_token_path E account) = Some e"
  shows "load_credentials E account = Inl e"
    and "res (send_email E account to subj body cc bcc auto_confirm from_address draft thread)
           = Inl e"
    and "res (send_reply E account thread' to subj body cc auto_confirm from_address draft)
           = Inl e"
    and "res (send_designer_notification E account cl pn pe dt tm vn et auto_confirm draft)
           = Inl e"
    and "ev_res (add_event E account company pn et dt st en loc eid descr stat) = Inl e"
proof -
  from assms show l: "load_credentials E account = Inl e"
    by (simp add: load_credentials_def get_credentials_path_def path_home_def path_exists_def
          seq_def expected_token_path_def Let_def)
  from assms have c: "cal_load_credentials E account = Inl e"
    by (simp add: cal_load_credentials_def cal_get_credentials_path_def path_home_def
          path_exists_def seq_def expected_token_path_def Let_def)
  from l show "res (send_email E account to subj body cc bcc auto_confirm from_address draft
                      thread) = Inl e"
    and "res (send_reply E account thread' to subj body cc auto_confirm from_address draft)
           = Inl e"
    and "res (send_designer_notification E account cl pn pe dt tm vn et auto_confirm draft)
           = Inl e"
    by (simp_all add: send_email_def send_reply_def send_designer_notification_def)
  from c show "ev_res (add_event E account company pn et dt st en loc eid descr stat) = Inl e"
    by (simp add: add_event_def)
qed

lemma locked_directory_ends_the_process:
  "status (main locked_machine (plain_args True)) = Uncaught ''[Errno 13] Permission denied''
   \<and> out (main locked_machine (plain_args True)) = []
   \<and> calls (main locked_machine (plain_args True)) = []"
  by code_simp

subsection \<open>The title of a calendar event\<close>

lemma route_of_the_choices:
  "route ''TBC'' = (CALENDAR_ADMIN, Some ''3'', ''TBC - '')"
  "route ''CONFIRMED'' = (CALENDAR_MAIN, None, [])"
  by (simp_all add: route_def upper_def upper_char_def)

lemma calendar_main_statuses:
  assumes "snd (calendar_main E a) = Some r"
  shows "\<exists>st \<in> {''TBC'', ''CONFIRMED''}.
           r = add_event E (case ea_account a of None \<Rightarrow> DEFAULT_ACCOUNT | Some acc \<Rightarrow> acc)
                 (ea_company a) (ea_poc a) (ea_type a) (ea_date a) (ea_start a) (ea_end a)
                 (ea_location a) (ea_email_id a) (ea_description a) st"
  using assms by (auto simp: calendar_main_def Let_def split: if_splits sum.splits)

lemma add_event_try_raises:
  "add_event_try E account company pn et dt st en loc eid descr stat =
     (case build_fails E of
        Some e \<Rightarrow> (Inl e, [])
      | None \<Rightarrow> (Inl (''name '' @ quoted ''POC'' @ '' is not defined''), []))"
proof (cases "build_fails E")
  case (Some e)
  then show ?thesis
    by (simp add: add_event_try_def build_service_def bnd_Inl)
next
  case None
  then have built: "fst (build_service E) = Inr ()" "snd (build_service E) = []"
    by (simp_all add: build_service_def)
  have found: "fst (lookup_name ((k, v) # scope) k) = Inr v" for k v scope
    by (simp add: lookup_name_def)
  have skip: "k \<noteq> n \<Longrightarrow> lookup_name ((k, v) # scope) n = lookup_name scope n" for k v scope n
    by (simp add: lookup_name_def)
  have missing: "lookup_name [] n = raise (''name '' @ quoted n @ '' is not defined'')" for n
    by (simp add: lookup_name_def)
  from None show ?thesis
    unfolding add_event_try_def Let_def
    by (simp add: bnd_Inr [OF built(1)] built(2) skip found missing bnd_Inr bnd_Inl)
qed

lemma add_event_never_inserts:
  "ev_log (add_event E account company pn et dt st en loc eid descr stat) = []
   \<and> (\<forall>r. ev_res (add_event E account company pn et dt st en loc eid descr stat) = Inr r
          \<longrightarrow> \<not> ev_success r \<and> title r = None)"
proof (cases "cal_loaded E account")
  case True
  then show ?thesis
    by (auto simp: add_event_log add_event_res add_event_try_raises event_failure_def
             split: option.splits)
next
  case False
  then show ?thesis
    by (auto simp: add_event_def cal_loaded_def event_failure_def
             split: sum.splits prod.splits option.splits)
qed

text \<open>
  The handler of \<^verbatim>\<open>add_event\<close> is there: what \<^verbatim>\<open>build\<close> raises becomes the failure
  result. The insertion call itself is never reached.
\<close>

lemma add_event_handler_catches:
  assumes "cal_loaded E account" and "build_fails E = Some e"
  shows "ev_res (add_event E account company pn et dt st en loc eid descr stat)
           = Inr (event_failure e)"
  using assms by (simp add: add_event_res add_event_try_raises)

text \<open>
  C1. With valid credentials, status \<^verbatim>\<open>TBC\<close>, company \<^verbatim>\<open>Acme\<close>, contact \<^verbatim>\<open>Jane\<close>
  and type \<^verbatim>\<open>EVENT\<close>, the routing picks the administration calendar, colour 3 and the
  prefix, but line 79 reads the name \<^verbatim>\<open>POC\<close>, which is not bound: \<^verbatim>\<open>add_event\<close> returns
  the failure with the \<^verbatim>\<open>NameError\<close> message, the result has no title, and nothing is
  inserted. The claim expects the title \<^verbatim>\<open>TBC - Acme - Jane (EVENT)\<close>.
\<close>

theorem add_event_fails_on_unbound_name:
  "ev_res (add_event (office None) ''ops@example.com'' ''Acme'' ''Jane'' ''EVENT''
            ''2026-05-21'' ''09:00'' ''20:30'' ''Conrad Singapore'' ''abc123'' None ''TBC'')
     = Inr (event_failure (''name '' @ quoted ''POC'' @ '' is not defined''))
   \<and> title_of (ev_res (add_event (office None) ''ops@example.com'' ''Acme'' ''Jane''
            ''EVENT'' ''2026-05-21'' ''09:00'' ''20:30'' ''Conrad Singapore'' ''abc123'' None
            ''TBC''))
     = None
   \<and> ev_log (add_event (office None) ''ops@example.com'' ''Acme'' ''Jane'' ''EVENT''
            ''2026-05-21'' ''09:00'' ''20:30'' ''Conrad Singapore'' ''abc123'' None ''TBC'')
     = []
   \<and> route ''TBC'' = (CALENDAR_ADMIN, Some ''3'', ''TBC - '')"
proof -
  have creds: "cal_loaded (office None) ''ops@example.com''"
    by code_simp
  have built: "build_fails (office None) = None"
    by (simp add: office_def)
  show ?thesis
    by (simp add: add_event_log add_event_res add_event_try_raises creds built
          route_of_the_choices event_failure_def title_of_def)
qed

subsection \<open>The capture tool\<close>

lemma fst_bnd: "fst (bnd m f) = (case fst m of Inl e \<Rightarrow> Inl e | Inr x \<Rightarrow> fst (f x))"
  by (cases "fst m") (simp_all add: bnd_Inl bnd_Inr)

lemma capture_loop_records:
  assumes "fst (capture_loop E query n refs) = Inr captured" and "r \<in> set captured"
  shows "\<exists>msg body. get_message E (em_message_id r) = Inr msg
           \<and> decode_body (b64decode E) (msg_payload msg) = Inr body
           \<and> em_body r = take 5000 body"
  using assms
proof (induction refs arbitrary: n captured)
  case Nil
  then show ?case by simp
next
  case (Cons ref refs)
  from Cons.prems(1) obtain msg_id thread msg body rest where
    parts: "ref_id ref = Some msg_id" "ref_threadId ref = Some thread"
      "get_message E msg_id = Inr msg"
      "decode_body (b64decode E) (msg_payload msg) = Inr body"
      "fst (capture_loop E query (Suc n) refs) = Inr rest"
    and made: "captured =
        \<lparr>captured_at = now E n, em_message_id = msg_id, em_thread_id = thread,
          em_from = get_or_empty (extract_headers (msg_headers msg)) ''from'',
          em_to = get_or_empty (extract_headers (msg_headers msg)) ''to'',
          em_cc = get_or_empty (extract_headers (msg_headers msg)) ''cc'',
          em_bcc = get_or_empty (extract_headers (msg_headers msg)) ''bcc'',
          em_subject = get_or_empty (extract_headers (msg_headers msg)) ''subject'',
          em_date = get_or_empty (extract_headers (msg_headers msg)) ''date'',
          em_body = (if body \<noteq> [] then take 5000 body else []),
          search_query = query, snippet = msg_snippet msg\<rparr> # rest"
    by (auto simp: fst_bnd Let_def split: option.splits sum.splits)
  show ?case
  proof (cases "r \<in> set rest")
    case True
    with Cons.IH [OF parts(5)] show ?thesis by blast
  next
    case False
    with Cons.prems(2) made have "em_message_id r = msg_id"
      and "em_body r = take 5000 body"
      by auto
    with parts(3,4) show ?thesis by simp
  qed
qed

lemma capture_email_returned:
  assumes "returned (capture_email E query save) = Inr (Some captured)"
  shows "\<exists>refs. list_messages E query = Inr refs \<and> refs \<noteq> []
           \<and> fst (capture_loop E query 0 refs) = Inr captured"
    and "save \<Longrightarrow> \<exists>old. load_cache (cache_file E) = Inr old
           \<and> cache_after (capture_email E query save)
               = Some (Json_object (add_captures captured old))"
  using assms
  by (auto simp: capture_email_def fst_bnd bnd_def call_def ret_def
           split: sum.splits prod.splits option.splits if_splits)

text \<open>The dictionary of the cache.\<close>

lemma map_of_dict_set: "map_of (dict_set k v ps) = (map_of ps)(k \<mapsto> v)"
  by (induction ps) auto

lemma keys_dict_set:
  "map fst (dict_set k v ps) = (if k \<in> fst ` set ps then map fst ps else map fst ps @ [k])"
  by (induction ps) auto

lemma map_of_add_captures_other:
  "k \<notin> cache_key ` set captured \<Longrightarrow> map_of (add_captures captured ps) k = map_of ps k"
  by (induction captured arbitrary: ps) (auto simp: map_of_dict_set)

lemma map_of_add_captures_last:
  assumes "i < length captured" and "cache_key (captured ! i) \<notin> set (later_keys captured i)"
  shows "map_of (add_captures captured ps) (cache_key (captured ! i))
           = Some (Captured (captured ! i))"
  using assms
proof (induction captured arbitrary: ps i)
  case Nil
  then show ?case by simp
next
  case (Cons email rest)
  show ?case
  proof (cases i)
    case 0
    with Cons.prems(2) have "cache_key email \<notin> cache_key ` set rest"
      by (simp add: later_keys_def)
    from map_of_add_captures_other [OF this] 0 show ?thesis
      by (simp add: map_of_dict_set)
  next
    case (Suc j)
    with Cons.prems have "j < length rest" and "cache_key (rest ! j) \<notin> set (later_keys rest j)"
      by (simp_all add: later_keys_def)
    from Cons.IH [OF this] Suc show ?thesis by simp
  qed
qed

lemma map_of_add_captures_some:
  assumes "k \<in> cache_key ` set captured"
  shows "\<exists>r' \<in> set captured. map_of (add_captures captured ps) k = Some (Captured r')"
  using assms
proof (induction captured arbitrary: ps)
  case Nil
  then show ?case by simp
next
  case (Cons email rest)
  show ?case
  proof (cases "k \<in> cache_key ` set rest")
    case True
    from Cons.IH [OF this, of "dict_set (cache_key email) (Captured email) ps"]
    show ?thesis by auto
  next
    case False
    with Cons.prems have "k = cache_key email"
      by auto
    with False map_of_add_captures_other [of k rest] show ?thesis
      by (auto simp: map_of_dict_set)
  qed
qed

lemma keyset_dict_set: "fst ` set (dict_set k v ps) = insert k (fst ` set ps)"
  by (induction ps) auto

lemma keys_add_captures:
  "fst ` set (add_captures captured ps) = fst ` set ps \<union> cache_key ` set captured"
  by (induction captured arbitrary: ps) (simp_all add: keyset_dict_set)

lemma distinct_add_captures:
  "distinct (map fst ps) \<Longrightarrow> distinct (map fst (add_captures captured ps))"
  by (induction captured arbitrary: ps) (auto simp: keys_dict_set)

lemma keys_add_captures_known:
  "cache_key ` set captured \<subseteq> fst ` set ps \<Longrightarrow> map fst (add_captures captured ps) = map fst ps"
proof (induction captured arbitrary: ps)
  case Nil
  then show ?case by simp
next
  case (Cons email rest)
  then have "map fst (dict_set (cache_key email) (Captured email) ps) = map fst ps"
    by (simp add: keys_dict_set)
  moreover from this Cons.prems
  have "cache_key ` set rest \<subseteq> fst ` set (dict_set (cache_key email) (Captured email) ps)"
    by (simp add: keyset_dict_set subset_insertI2)
  ultimately show ?case using Cons.IH by simp
qed

lemma map_of_add_captures:
  "map_of (add_captures captured ps)
     = map_of ps ++ map_of (rev (map (\<lambda>email. (cache_key email, Captured email)) captured))"
proof (induction captured arbitrary: ps)
  case Nil
  then show ?case by simp
next
  case (Cons email rest)
  have "(map_of ps)(cache_key email \<mapsto> Captured email)
          = map_of ps ++ [cache_key email \<mapsto> Captured email]"
    by simp
  with Cons show ?case
    by (simp add: map_of_dict_set del: map_add_upd)
qed

lemma dictionary_equal:
  assumes "distinct (map fst xs)" and "map fst xs = map fst ys" and "map_of xs = map_of ys"
  shows "xs = ys"
  using assms
proof (induction xs arbitrary: ys)
  case Nil
  then show ?case by simp
next
  case (Cons x xs)
  from Cons.prems(2) obtain y ys' where ys: "ys = y # ys'" and k: "fst x = fst y"
    and ks: "map fst xs = map fst ys'"
    by (cases ys) auto
  from Cons.prems(3) have "map_of (x # xs) (fst x) = map_of ys (fst x)"
    by (rule fun_cong)
  with ys k have v: "snd x = snd y" by simp
  have "map_of xs = map_of ys'"
  proof
    fix key
    show "map_of xs key = map_of ys' key"
    proof (cases "key = fst x")
      case True
      with Cons.prems(1) ks have "key \<notin> fst ` set xs" and "key \<notin> fst ` set ys'"
        by (auto simp flip: set_map)
      then have "map_of xs key = None" and "map_of ys' key = None"
        by (simp_all add: map_of_eq_None_iff)
      then show ?thesis by simp
    next
      case False
      from Cons.prems(3) have "map_of (x # xs) key = map_of ys key"
        by (rule fun_cong)
      with False ys k show ?thesis by simp
    qed
  qed
  with Cons.IH [of ys'] Cons.prems(1) ks have "xs = ys'" by simp
  with ys k v show ?case by (simp add: prod_eq_iff)
qed

lemma add_captures_again:
  assumes "distinct (map fst ps)"
  shows "add_captures captured (add_captures captured ps) = add_captures captured ps"
proof (rule dictionary_equal)
  show "distinct (map fst (add_captures captured (add_captures captured ps)))"
    by (intro distinct_add_captures assms)
  have "cache_key ` set captured \<subseteq> fst ` set (add_captures captured ps)"
    by (simp add: keys_add_captures)
  then show "map fst (add_captures captured (add_captures captured ps))
               = map fst (add_captures captured ps)"
    by (rule keys_add_captures_known)
  show "map_of (add_captures captured (add_captures captured ps))
          = map_of (add_captures captured ps)"
    unfolding map_of_add_captures
    by (rule ext) (simp add: map_add_def split: option.splits)
qed

text \<open>
  C10. Every record that \<^verbatim>\<open>capture_email\<close> returns has a body of at most 5000
  characters: it is the first 5000 characters of the decoded body of its message. When
  the run saves, the cache entry under the record's key is a captured record with such a
  body as well.
\<close>

theorem captured_body_is_cut_at_5000:
  assumes "returned (capture_email E query save) = Inr (Some captured)"
    and "r \<in> set captured"
  shows "length (em_body r) \<le> 5000
     \<and> (\<exists>msg body. get_message E (em_message_id r) = Inr msg
           \<and> decode_body (b64decode E) (msg_payload msg) = Inr body
           \<and> em_body r = take 5000 body)
     \<and> (save \<longrightarrow>
          (\<exists>kvs r'. cache_after (capture_email E query save) = Some (Json_object kvs)
             \<and> map_of kvs (cache_key r) = Some (Captured r')
             \<and> length (em_body r') \<le> 5000))"
proof -
  from capture_email_returned(1) [OF assms(1)] obtain refs
    where loop: "fst (capture_loop E query 0 refs) = Inr captured"
    by blast
  have cut: "\<exists>msg body. get_message E (em_message_id x) = Inr msg
           \<and> decode_body (b64decode E) (msg_payload msg) = Inr body
           \<and> em_body x = take 5000 body" if "x \<in> set captured" for x
    using capture_loop_records [OF loop that] .
  then have short: "length (em_body x) \<le> 5000" if "x \<in> set captured" for x
    using that by fastforce
  have cached: "\<exists>kvs r'. cache_after (capture_email E query save) = Some (Json_object kvs)
             \<and> map_of kvs (cache_key r) = Some (Captured r')
             \<and> length (em_body r') \<le> 5000" if save
  proof -
    from capture_email_returned(2) [OF assms(1) that] obtain old
      where after: "cache_after (capture_email E query save)
                      = Some (Json_object (add_captures captured old))"
      by blast
    from assms(2) have "cache_key r \<in> cache_key ` set captured"
      by simp
    from map_of_add_captures_some [OF this, of old] obtain r'
      where "r' \<in> set captured"
        and "map_of (add_captures captured old) (cache_key r) = Some (Captured r')"
      by blast
    with after short [of r'] show ?thesis by blast
  qed
  from cut [OF assms(2)] short [OF assms(2)] cached show ?thesis
    by blast
qed

theorem captured_body_is_cut_at_5000_witness:
  "length (captured_body_lengths
             (capture_email (mailbox (Inr two_threads) long_text None) ''from:jean'' True)) = 2
   \<and> list_all (\<lambda>n. n \<le> 5000)
        (captured_body_lengths
           (capture_email (mailbox (Inr two_threads) long_text None) ''from:jean'' True))
   \<and> 5000 < length long_text"
proof -
  have "\<exists>c. returned (capture_email (mailbox (Inr two_threads) long_text None)
                        ''from:jean'' True) = Inr (Some c) \<and> length c = 2"
    by (simp add: capture_email_def mailbox_def two_threads_def load_cache_def bnd_def
          call_def ret_def decode_data_def Let_def)
  then obtain c where c: "returned (capture_email (mailbox (Inr two_threads) long_text None)
                        ''from:jean'' True) = Inr (Some c)" and two: "length c = 2"
    by blast
  from captured_body_is_cut_at_5000 [OF c] have "\<forall>r \<in> set c. length (em_body r) \<le> 5000"
    by blast
  with c two show ?thesis
    by (simp add: captured_body_lengths_def list_all_iff long_text_def)
qed

text \<open>
  C8, the claim as stated fails: two messages of one thread whose identifiers share
  their first eight characters (Gmail identifiers issued within about four seconds)
  get the same key; after the save the cache holds one entry under that key, the second
  record, and the first captured record is not in the file.
\<close>

theorem colliding_keys_lose_a_record:
  "captured_ids (capture_email (mailbox (Inr two_in_four_seconds) ''hello'' None)
                   ''from:jean'' True)
     = [''18c5f2a3b4d5e6f7'', ''18c5f2a3c0ffee00'']
   \<and> cached_ids (capture_email (mailbox (Inr two_in_four_seconds) ''hello'' None)
                   ''from:jean'' True)
     = [(''t1_18c5f2a3'', ''18c5f2a3c0ffee00'')]"
  by code_simp

text \<open>
  C8, as amended. A saving run that returns its records leaves a cache object in which
  each captured record stands under its key \<^verbatim>\<open>{thread-id}_{first 8 characters of the
  message id}\<close>, unchanged, provided no later record of the same run has the same key
  (then the later one stands there); entries under other keys are kept as they were; the
  keys are the old ones and the new ones; and no key is duplicated: keys that were
  distinct stay distinct, and saving the same records again changes nothing.
\<close>

theorem cache_merge_keeps_last_record_of_each_key:
  assumes "returned (capture_email E query True) = Inr (Some captured)"
  shows "\<exists>old kvs. load_cache (cache_file E) = Inr old
     \<and> cache_after (capture_email E query True) = Some (Json_object kvs)
     \<and> (\<forall>i < length captured.
          cache_key (captured ! i) \<notin> set (later_keys captured i) \<longrightarrow>
          map_of kvs (cache_key (captured ! i)) = Some (Captured (captured ! i)))
     \<and> (\<forall>k. k \<notin> cache_key ` set captured \<longrightarrow> map_of kvs k = map_of old k)
     \<and> fst ` set kvs = fst ` set old \<union> cache_key ` set captured
     \<and> (distinct (map fst old) \<longrightarrow>
          distinct (map fst kvs) \<and> add_captures captured kvs = kvs)"
proof -
  from capture_email_returned(2) [OF assms] obtain old
    where old: "load_cache (cache_file E) = Inr old"
      and after: "cache_after (capture_email E query True)
                    = Some (Json_object (add_captures captured old))"
    by blast
  have "\<forall>i < length captured.
          cache_key (captured ! i) \<notin> set (later_keys captured i) \<longrightarrow>
          map_of (add_captures captured old) (cache_key (captured ! i))
            = Some (Captured (captured ! i))"
    by (simp add: map_of_add_captures_last)
  moreover have "\<forall>k. k \<notin> cache_key ` set captured \<longrightarrow>
          map_of (add_captures captured old) k = map_of old k"
    by (simp add: map_of_add_captures_other)
  moreover have "fst ` set (add_captures captured old)
                   = fst ` set old \<union> cache_key ` set captured"
    by (rule keys_add_captures)
  moreover have "distinct (map fst old) \<longrightarrow>
          distinct (map fst (add_captures captured old))
          \<and> add_captures captured (add_captures captured old) = add_captures captured old"
    by (simp add: distinct_add_captures add_captures_again)
  ultimately show ?thesis using old after by blast
qed

lemma cached_ids_keys:
  "cache_after r = Some (Json_object kvs) \<Longrightarrow> map fst (cached_ids r) = map fst kvs"
  by (simp add: cached_ids_def case_prod_unfold)

theorem cache_merge_keeps_last_record_of_each_key_witness:
  "captured_ids (capture_email (mailbox (Inr two_threads) ''hello'' (Some earlier_cache))
                   ''from:jean'' True)
     = [''18c5f2a3b4d5e6f7'', ''18c5f2a4000000aa'']
   \<and> cached_ids (capture_email (mailbox (Inr two_threads) ''hello'' (Some earlier_cache))
                   ''from:jean'' True)
     = [(''t0_17aa0000'', []), (''t1_18c5f2a3'', ''18c5f2a3b4d5e6f7''),
        (''t2_18c5f2a4'', ''18c5f2a4000000aa'')]
   \<and> distinct (map fst (cached_ids
        (capture_email (mailbox (Inr two_threads) ''hello'' (Some earlier_cache))
           ''from:jean'' True)))"
proof -
  have ids: "captured_ids (capture_email (mailbox (Inr two_threads) ''hello''
                   (Some earlier_cache)) ''from:jean'' True)
     = [''18c5f2a3b4d5e6f7'', ''18c5f2a4000000aa'']"
    by code_simp
  have cached: "cached_ids (capture_email (mailbox (Inr two_threads) ''hello''
                   (Some earlier_cache)) ''from:jean'' True)
     = [(''t0_17aa0000'', []), (''t1_18c5f2a3'', ''18c5f2a3b4d5e6f7''),
        (''t2_18c5f2a4'', ''18c5f2a4000000aa'')]"
    by code_simp
  have "\<exists>c. returned (capture_email (mailbox (Inr two_threads) ''hello''
                   (Some earlier_cache)) ''from:jean'' True) = Inr (Some c)"
    using ids by (auto simp: captured_ids_def split: sum.splits option.splits)
  then obtain c where c: "returned (capture_email (mailbox (Inr two_threads) ''hello''
                   (Some earlier_cache)) ''from:jean'' True) = Inr (Some c)"
    by blast
  have old: "load_cache (cache_file (mailbox (Inr two_threads) ''hello'' (Some earlier_cache)))
               = Inr [(''t0_17aa0000'', Other_value ''kept'')]"
    by (simp add: load_cache_def mailbox_def earlier_cache_def)
  from cache_merge_keeps_last_record_of_each_key [OF c] old
  obtain kvs where "cache_after (capture_email (mailbox (Inr two_threads) ''hello''
                   (Some earlier_cache)) ''from:jean'' True) = Some (Json_object kvs)"
    and "distinct (map fst kvs)"
    by auto
  then have "distinct (map fst (cached_ids (capture_email (mailbox (Inr two_threads) ''hello''
                   (Some earlier_cache)) ''from:jean'' True)))"
    by (simp add: cached_ids_keys)
  with ids cached show ?thesis by simp
qed

subsection \<open>How a cancellation is reported\<close>

lemma render_cancelled:
  "render_result as_json user_cancelled =
     (if as_json then [Json user_cancelled]
      else [Marked CLIPBOARD '' Preview shown. Email not saved/sent.''])"
  by (simp add: render_result_def user_cancelled_def no_result_def)

lemma render_failure:
  "render_result as_json (failure e) =
     (if as_json then [Json (failure e)] else [Marked CROSS_MARK ('' Failed: '' @ e)])"
  by (simp add: render_result_def failure_def no_result_def py_str_def)

lemma send_email_declined:
  assumes "operator_input E = Some typed" and "\<not> affirmative (lower (strip typed))"
    and "Prompt q \<in> set (log (send_email E account to subj body cc bcc auto_confirm
                                 from_address draft thread))"
  shows "res (send_email E account to subj body cc bcc auto_confirm from_address draft thread)
           = Inr user_cancelled
         \<and> delivered (log (send_email E account to subj body cc bcc auto_confirm from_address
                              draft thread)) = []"
proof -
  from assms(3) have loaded: "loaded E account"
    and asked: "Prompt q \<in> set (snd (send_email_try E account to subj body cc bcc
                                         auto_confirm from_address draft thread))"
    by (auto simp: send_email_log split: if_splits)
  from declinedD [OF send_email_try_declined [OF assms(1,2)] asked] loaded show ?thesis
    by (simp add: send_email_res send_email_log)
qed

lemma send_reply_declined:
  assumes "operator_input E = Some typed" and "\<not> affirmative (lower (strip typed))"
    and "Prompt q \<in> set (log (send_reply E account thread' to subj body cc auto_confirm
                                 from_address draft))"
  shows "res (send_reply E account thread' to subj body cc auto_confirm from_address draft)
           = Inr user_cancelled
         \<and> delivered (log (send_reply E account thread' to subj body cc auto_confirm
                              from_address draft)) = []"
proof -
  from assms(3) have loaded: "loaded E account"
    and asked: "Prompt q \<in> set (snd (send_reply_try E account thread' to subj body cc
                                         auto_confirm from_address draft))"
    by (auto simp: send_reply_log split: if_splits)
  from declinedD [OF send_reply_try_declined [OF assms(1,2)] asked] loaded show ?thesis
    by (simp add: send_reply_res send_reply_log)
qed

lemma main_declined:
  assumes "operator_input E = Some typed" and "\<not> affirmative (lower (strip typed))"
    and "Prompt q \<in> set (calls (main E a))"
  shows "\<exists>printed. set printed \<subseteq> {Text ''Enter email body (Ctrl+D to finish):''}
           \<and> out (main E a) = printed @ render_result (arg_json a) user_cancelled
           \<and> status (main E a) = Exit 1
           \<and> delivered (calls (main E a)) = []"
proof -
  have failed: "\<not> success user_cancelled"
    by (simp add: user_cancelled_def no_result_def)
  note email = send_email_declined [OF assms(1,2), of q]
  note reply = send_reply_declined [OF assms(1,2), of q]
  show ?thesis
  proof (cases "read_file E (py_str (arg_body_file a))")
    case (Inl e)
    with assms(3) failed show ?thesis
      by (auto simp: main_def Let_def email reply split: if_splits sum.splits)
  next
    case (Inr content)
    with assms(3) failed show ?thesis
      by (auto simp: main_def Let_def email reply split: if_splits sum.splits)
  qed
qed

text \<open>
  C9. When the operator declines at the gate, nothing is sent or saved, and the result
  is told from every failure result by its \<^verbatim>\<open>preview_only\<close> flag. \<^verbatim>\<open>main\<close> renders
  it differently from a failure in both of its forms: in the readable form it prints the
  \<^verbatim>\<open>Preview shown\<close> line and no \<^verbatim>\<open>Failed\<close> line, with \<^verbatim>\<open>--json\<close> the record with
  the flag. The exit status is 1, the status of every run that sent nothing.
\<close>

theorem cancellation_is_rendered_as_preview:
  assumes "operator_input E = Some typed" and "\<not> affirmative (lower (strip typed))"
    and "Prompt q \<in> set (calls (main E a))"
  shows "last (out (main E a)) =
           (if arg_json a then Json user_cancelled
            else Marked CLIPBOARD '' Preview shown. Email not saved/sent.'')
     \<and> list_all (\<lambda>l. case l of Marked g t \<Rightarrow> g \<noteq> CROSS_MARK | _ \<Rightarrow> True) (out (main E a))
     \<and> last (out (main E a)) \<noteq> last (render_result (arg_json a) (failure e))
     \<and> preview_only user_cancelled = Some True
     \<and> preview_only (failure e) = None
     \<and> delivered (calls (main E a)) = []
     \<and> status (main E a) = Exit 1"
proof -
  from main_declined [OF assms] obtain printed
    where p: "set printed \<subseteq> {Text ''Enter email body (Ctrl+D to finish):''}"
      and o: "out (main E a) = printed @ render_result (arg_json a) user_cancelled"
      and s: "status (main E a) = Exit 1"
      and d: "delivered (calls (main E a)) = []"
    by blast
  from p have "list_all (\<lambda>l. case l of Marked g t \<Rightarrow> g \<noteq> CROSS_MARK | _ \<Rightarrow> True) printed"
    by (auto simp: list_all_iff)
  with o have shown: "last (out (main E a)) =
           (if arg_json a then Json user_cancelled
            else Marked CLIPBOARD '' Preview shown. Email not saved/sent.'')
     \<and> list_all (\<lambda>l. case l of Marked g t \<Rightarrow> g \<noteq> CROSS_MARK | _ \<Rightarrow> True) (out (main E a))"
    by (simp add: render_cancelled)
  have shape: "preview_only user_cancelled = Some True \<and> preview_only (failure e) = None"
    by (simp add: user_cancelled_def failure_def no_result_def)
  then have "user_cancelled \<noteq> failure e"
    by auto
  with shown have differs: "last (out (main E a)) \<noteq> last (render_result (arg_json a) (failure e))"
    by (simp add: render_failure)
  from shown differs s d shape show ?thesis by blast
qed

theorem cancellation_is_rendered_as_preview_witness:
  "operator_input (office (Some ''no'')) = Some ''no''
   \<and> \<not> affirmative (lower (strip ''no''))
   \<and> Prompt ''Send this email? (yes/no): ''
        \<in> set (calls (main (office (Some ''no'')) (plain_args False)))
   \<and> out (main (office (Some ''no'')) (plain_args False))
       = [Marked CLIPBOARD '' Preview shown. Email not saved/sent.'']
   \<and> delivered (calls (main (office (Some ''no'')) (plain_args False))) = []
   \<and> Prompt ''Send this reply? (yes/no): ''
        \<in> set (calls (main (office (Some ''no'')) (reply_args (Some ''Quotation'') True)))
   \<and> out (main (office (Some ''no'')) (reply_args (Some ''Quotation'') True))
       = [Json user_cancelled]
   \<and> delivered (calls (main (office (Some ''no'')) (reply_args (Some ''Quotation'') True))) = []
   \<and> out (main office_refused ((plain_args False)\<lparr>arg_yes := True\<rparr>))
       = [Marked CROSS_MARK '' Failed: HttpError 403'']"
proof -
  let ?E = "office (Some ''no'')"
  have typed: "operator_input ?E = Some ''no''"
    by (simp add: office_def)
  have no: "\<not> affirmative (lower (strip ''no''))"
    by code_simp
  have asked: "Prompt ''Send this email? (yes/no): '' \<in> set (calls (main ?E (plain_args False)))"
    "Prompt ''Send this reply? (yes/no): ''
       \<in> set (calls (main ?E (reply_args (Some ''Quotation'') True)))"
    by code_simp+
  have form: "\<not> arg_json (plain_args False)" "arg_json (reply_args (Some ''Quotation'') True)"
    by (simp_all add: plain_args_def reply_args_def)
  have one: "length (out (main ?E (plain_args False))) = 1"
    "length (out (main ?E (reply_args (Some ''Quotation'') True))) = 1"
    by code_simp+
  then obtain l l' where lines: "out (main ?E (plain_args False)) = [l]"
    "out (main ?E (reply_args (Some ''Quotation'') True)) = [l']"
    by (auto simp: length_Suc_conv)
  have refused: "out (main office_refused ((plain_args False)\<lparr>arg_yes := True\<rparr>))
       = [Marked CROSS_MARK '' Failed: HttpError 403'']"
    by code_simp
  from cancellation_is_rendered_as_preview [OF typed no asked(1)] form(1) lines(1)
  have "l = Marked CLIPBOARD '' Preview shown. Email not saved/sent.''"
    and "delivered (calls (main ?E (plain_args False))) = []"
    by simp_all
  moreover from cancellation_is_rendered_as_preview [OF typed no asked(2)] form(2) lines(2)
  have "l' = Json user_cancelled"
    and "delivered (calls (main ?E (reply_args (Some ''Quotation'') True))) = []"
    by simp_all
  ultimately show ?thesis
    using typed no asked lines refused by simp
qed

end
